theory Spec2Isabelle
  imports
    Main
    "HOL-Library.FSet"
    "HOL-Library.Char_ord"
    "HOL-Library.List_Lexorder"
    "HOL-Library.Sublist"
begin

section \<open>The Cognito user pool client resource\<close>

text \<open>
  A shallow embedding of \<^verbatim>\<open>aws/resource_aws_cognito_user_pool_client.go\<close>: the schema
  declaration, the Create, Read, Update, Delete and Import functions, and the two helpers
  for the nested \<^verbatim>\<open>analytics_configuration\<close> block.

  The functions work on a \<^verbatim>\<open>*schema.ResourceData\<close>, which they mutate (\<^verbatim>\<open>d.SetId\<close>,
  \<^verbatim>\<open>d.Set\<close>), and on a connection \<^verbatim>\<open>conn\<close> to the remote API. Here the resource data
  is a record that each function returns updated, next to its error (\<open>None\<close> is Go's
  \<^verbatim>\<open>nil\<close> error), and the connection is a record of the four remote calls, each a
  function from its request to an error or a response.
\<close>

subsection \<open>Resource data\<close>

text \<open>
  The nested block, as the map \<^verbatim>\<open>m := l[0].(map[string]interface{})\<close> that
  \<^verbatim>\<open>expandAwsCognitoUserPoolClientAnalyticsConfig\<close> receives and
  \<^verbatim>\<open>flattenAwsCognitoUserPoolClientAnalyticsConfig\<close> builds: a key may be missing
  (\<open>None\<close>).
\<close>

record analytics_block =
  application_id :: "string option"
  application_arn :: "string option"
  external_id :: "string option"
  role_arn :: "string option"
  user_data_shared :: "bool option"

text \<open>
  One field per attribute of the schema, in the order of the schema declaration, and the
  resource id. An attribute that is not set is \<open>None\<close>. A \<^verbatim>\<open>schema.TypeSet\<close> of
  strings is a finite set, \<^verbatim>\<open>schema.TypeList\<close> a list, \<^verbatim>\<open>schema.TypeInt\<close> an
  integer (the schema bounds it by 3650, so Go's \<^verbatim>\<open>int64(v.(int))\<close> never wraps).
  The functions read the resource data through \<^verbatim>\<open>d.Id\<close>, \<^verbatim>\<open>d.Get\<close> and \<^verbatim>\<open>d.GetOk\<close>
  only, never through \<^verbatim>\<open>d.HasChange\<close> or \<^verbatim>\<open>d.GetChange\<close>: the record is the merged
  view those three read.
\<close>

record ResourceData =
  Id' :: string
  name :: "string option"
  client_secret :: "string option"
  generate_secret :: "bool option"
  user_pool_id :: "string option"
  explicit_auth_flows :: "string fset option"
  read_attributes :: "string fset option"
  write_attributes :: "string fset option"
  refresh_token_validity :: "int option"
  allowed_oauth_flows :: "string fset option"
  allowed_oauth_flows_user_pool_client :: "bool option"
  allowed_oauth_scopes :: "string fset option"
  callback_urls :: "string fset option"
  default_redirect_uri :: "string option"
  logout_urls :: "string fset option"
  prevent_user_existence_errors :: "string option"
  supported_identity_providers :: "string fset option"
  analytics_configuration :: "analytics_block list option"

text \<open>
  \<^verbatim>\<open>d.Get(key)\<close> of the plugin SDK returns the attribute's value, and the zero value
  of its type when the attribute is not set.
\<close>

definition Get_string :: "string option \<Rightarrow> string" where
  "Get_string v = (case v of None \<Rightarrow> [] | Some s \<Rightarrow> s)"

text \<open>
  \<^verbatim>\<open>d.GetOk(key)\<close> returns the value and whether the attribute has been set to a
  non-zero value: \<^verbatim>\<open>ok\<close> is false for an attribute that is not set and for one set
  to the zero value of its type (the empty string, \<^verbatim>\<open>false\<close>, \<^verbatim>\<open>0\<close>, the set or
  list without elements). Every caller uses the value under \<^verbatim>\<open>ok\<close> only, so the pair
  is an option: \<open>Some v\<close> is \<^verbatim>\<open>(v, true)\<close>.
\<close>

definition GetOk_string :: "string option \<Rightarrow> string option" where
  "GetOk_string v = (case v of None \<Rightarrow> None | Some s \<Rightarrow> if s = [] then None else Some s)"

definition GetOk_bool :: "bool option \<Rightarrow> bool option" where
  "GetOk_bool v = (case v of None \<Rightarrow> None | Some b \<Rightarrow> if b = False then None else Some b)"

definition GetOk_int :: "int option \<Rightarrow> int option" where
  "GetOk_int v = (case v of None \<Rightarrow> None | Some i \<Rightarrow> if i = 0 then None else Some i)"

definition GetOk_set :: "string fset option \<Rightarrow> string fset option" where
  "GetOk_set v = (case v of None \<Rightarrow> None | Some s \<Rightarrow> if s = {||} then None else Some s)"

definition GetOk_list :: "'a list option \<Rightarrow> 'a list option" where
  "GetOk_list v = (case v of None \<Rightarrow> None | Some l \<Rightarrow> if l = [] then None else Some l)"

subsection \<open>Import\<close>

text \<open>
  Go's \<^verbatim>\<open>strings.Split(s, "/")\<close> for the one-character separator: the pieces of \<open>s\<close>
  between the separators, one more piece than there are separators (the empty string
  gives one empty piece).
\<close>

fun Split :: "string \<Rightarrow> char \<Rightarrow> string list" where
  "Split [] sep = [[]]"
| "Split (c # cs) sep =
     (if c = sep then [] # Split cs sep
      else (case Split cs sep of [] \<Rightarrow> [[c]] | p # ps \<Rightarrow> (c # p) # ps))"

text \<open>
  The errors the functions return. \<^verbatim>\<open>fmt.Errorf(prefix + ": %s", err)\<close> keeps the
  prefix and the error it formats; the import's error keeps the identifier it names.
\<close>

datatype transport_error = AWSErr string string | OtherErr string

datatype error =
    Propagated transport_error
  | Errorf string transport_error
  | WrongFormat string

text \<open>
  \<^verbatim>\<open>resourceAwsCognitoUserPoolClientImport\<close>: on success the one resource data of the
  returned slice, with the id and \<^verbatim>\<open>user_pool_id\<close> set; otherwise the error (and the
  empty slice).
\<close>

definition resourceAwsCognitoUserPoolClientImport :: "ResourceData \<Rightarrow> error + ResourceData" where
  "resourceAwsCognitoUserPoolClientImport d =
     (if length (Split (Id' d) CHR ''/'') \<noteq> 2 \<or> length (Id' d) < 3
      then Inl (WrongFormat (Id' d))
      else
        let userPoolId = Split (Id' d) CHR ''/'' ! 0;
            clientId = Split (Id' d) CHR ''/'' ! 1
        in Inr (d\<lparr>Id' := clientId, user_pool_id := Some userPoolId\<rparr>))"

subsection \<open>Wire types\<close>

text \<open>
  The request and response structs of the remote API as the functions use them: every
  field is a Go pointer or slice, \<open>None\<close> when \<^verbatim>\<open>nil\<close>. The fields of the two request
  structs carry the prefixes \<open>Create_\<close> and \<open>Update_\<close>, those of the two key structs
  \<open>Describe_\<close> and \<open>Delete_\<close>, since a field name belongs to one record. Neither request
  struct is given a field for the client secret, and the update request none for
  \<^verbatim>\<open>GenerateSecret\<close>: the functions assign no such field.
\<close>

record AnalyticsConfigurationType =
  ApplicationArn :: "string option"
  ApplicationId :: "string option"
  ExternalId :: "string option"
  RoleArn :: "string option"
  UserDataShared :: "bool option"

record CreateUserPoolClientInput =
  Create_ClientName :: "string option"
  Create_UserPoolId :: "string option"
  Create_GenerateSecret :: "bool option"
  Create_ExplicitAuthFlows :: "string list option"
  Create_ReadAttributes :: "string list option"
  Create_WriteAttributes :: "string list option"
  Create_RefreshTokenValidity :: "int option"
  Create_AllowedOAuthFlows :: "string list option"
  Create_AllowedOAuthFlowsUserPoolClient :: "bool option"
  Create_AllowedOAuthScopes :: "string list option"
  Create_CallbackURLs :: "string list option"
  Create_DefaultRedirectURI :: "string option"
  Create_LogoutURLs :: "string list option"
  Create_SupportedIdentityProviders :: "string list option"
  Create_AnalyticsConfiguration :: "AnalyticsConfigurationType option"
  Create_PreventUserExistenceErrors :: "string option"

record UpdateUserPoolClientInput =
  Update_ClientId :: "string option"
  Update_UserPoolId :: "string option"
  Update_ClientName :: "string option"
  Update_ExplicitAuthFlows :: "string list option"
  Update_ReadAttributes :: "string list option"
  Update_WriteAttributes :: "string list option"
  Update_RefreshTokenValidity :: "int option"
  Update_AllowedOAuthFlows :: "string list option"
  Update_AllowedOAuthFlowsUserPoolClient :: "bool option"
  Update_AllowedOAuthScopes :: "string list option"
  Update_CallbackURLs :: "string list option"
  Update_DefaultRedirectURI :: "string option"
  Update_LogoutURLs :: "string list option"
  Update_PreventUserExistenceErrors :: "string option"
  Update_SupportedIdentityProviders :: "string list option"
  Update_AnalyticsConfiguration :: "AnalyticsConfigurationType option"

record DescribeUserPoolClientInput =
  Describe_ClientId :: "string option"
  Describe_UserPoolId :: "string option"

record DeleteUserPoolClientInput =
  Delete_ClientId :: "string option"
  Delete_UserPoolId :: "string option"

text \<open>
  \<^verbatim>\<open>resp.UserPoolClient\<close> of the create and describe responses, with the fields the
  read function reads.
\<close>

record UserPoolClientType =
  ClientId :: "string option"
  UserPoolId :: "string option"
  ClientName :: "string option"
  ExplicitAuthFlows :: "string list option"
  ReadAttributes :: "string list option"
  WriteAttributes :: "string list option"
  RefreshTokenValidity :: "int option"
  ClientSecret :: "string option"
  AllowedOAuthFlows :: "string list option"
  AllowedOAuthFlowsUserPoolClient :: "bool option"
  AllowedOAuthScopes :: "string list option"
  CallbackURLs :: "string list option"
  DefaultRedirectURI :: "string option"
  LogoutURLs :: "string list option"
  PreventUserExistenceErrors :: "string option"
  SupportedIdentityProviders :: "string list option"
  AnalyticsConfiguration :: "AnalyticsConfigurationType option"

text \<open>
  The connection \<^verbatim>\<open>meta.(*AWSClient).cognitoidpconn\<close>: the four calls of the remote
  API, each answering a request with an error or a response. The update and delete
  responses are never read.
\<close>

record cognitoidpconn =
  CreateUserPoolClient :: "CreateUserPoolClientInput \<Rightarrow> transport_error + UserPoolClientType"
  DescribeUserPoolClient :: "DescribeUserPoolClientInput \<Rightarrow> transport_error + UserPoolClientType"
  UpdateUserPoolClient :: "UpdateUserPoolClientInput \<Rightarrow> transport_error + unit"
  DeleteUserPoolClient :: "DeleteUserPoolClientInput \<Rightarrow> transport_error + unit"

text \<open>\<^verbatim>\<open>aws.StringValue\<close> and \<^verbatim>\<open>aws.BoolValue\<close>: the value pointed to, the zero value for \<^verbatim>\<open>nil\<close>.\<close>

definition StringValue :: "string option \<Rightarrow> string" where
  "StringValue p = (case p of None \<Rightarrow> [] | Some s \<Rightarrow> s)"

definition BoolValue :: "bool option \<Rightarrow> bool" where
  "BoolValue p = (case p of None \<Rightarrow> False | Some b \<Rightarrow> b)"

text \<open>
  Modelled from the spec: \<^verbatim>\<open>expandStringSet\<close> and \<^verbatim>\<open>flattenStringSet\<close>, helpers of
  the provider that are not in this file. Encoding lists the elements of the set in a
  canonical order; decoding takes the remote's list as unordered, and a \<^verbatim>\<open>nil\<close> list
  as the set without elements.
\<close>

definition expandStringSet :: "string fset \<Rightarrow> string list" where
  "expandStringSet configured = sorted_list_of_fset configured"

definition flattenStringSet :: "string list option \<Rightarrow> string fset" where
  "flattenStringSet l = (case l of None \<Rightarrow> {||} | Some xs \<Rightarrow> fset_of_list xs)"

text \<open>
  Modelled from the spec: \<^verbatim>\<open>isAWSErr(err, code, message)\<close>, a helper of the provider
  that is not in this file. The transport's error carries a machine-readable kind; the
  helper holds for an error of the remote API with that code whose message contains
  \<open>message\<close>, and for no other error.
\<close>

definition isAWSErr :: "transport_error \<Rightarrow> string \<Rightarrow> string \<Rightarrow> bool" where
  "isAWSErr err code message =
     (case err of AWSErr c m \<Rightarrow> c = code \<and> sublist message m | OtherErr _ \<Rightarrow> False)"

definition ErrCodeResourceNotFoundException :: string where
  "ErrCodeResourceNotFoundException = ''ResourceNotFoundException''"

subsection \<open>The nested block\<close>

fun expandAwsCognitoUserPoolClientAnalyticsConfig ::
  "analytics_block list \<Rightarrow> AnalyticsConfigurationType option" where
  "expandAwsCognitoUserPoolClientAnalyticsConfig [] = None"
| "expandAwsCognitoUserPoolClientAnalyticsConfig (m # _) = Some
     \<lparr>ApplicationArn =
        (case application_arn m of Some v \<Rightarrow> if v \<noteq> [] then Some v else None | None \<Rightarrow> None),
      ApplicationId =
        (case application_id m of Some v \<Rightarrow> if v \<noteq> [] then Some v else None | None \<Rightarrow> None),
      ExternalId =
        (case external_id m of Some v \<Rightarrow> if v \<noteq> [] then Some v else None | None \<Rightarrow> None),
      RoleArn =
        (case role_arn m of Some v \<Rightarrow> if v \<noteq> [] then Some v else None | None \<Rightarrow> None),
      UserDataShared = (case user_data_shared m of Some v \<Rightarrow> Some v | None \<Rightarrow> None)\<rparr>"

fun flattenAwsCognitoUserPoolClientAnalyticsConfig ::
  "AnalyticsConfigurationType option \<Rightarrow> analytics_block list" where
  "flattenAwsCognitoUserPoolClientAnalyticsConfig None = []"
| "flattenAwsCognitoUserPoolClientAnalyticsConfig (Some analyticsConfig) =
     [\<lparr>application_id =
         (case ApplicationId analyticsConfig of None \<Rightarrow> None | Some v \<Rightarrow> Some (StringValue (Some v))),
       application_arn =
         (case ApplicationArn analyticsConfig of None \<Rightarrow> None | Some v \<Rightarrow> Some (StringValue (Some v))),
       external_id =
         (case ExternalId analyticsConfig of None \<Rightarrow> None | Some v \<Rightarrow> Some (StringValue (Some v))),
       role_arn =
         (case RoleArn analyticsConfig of None \<Rightarrow> None | Some v \<Rightarrow> Some (StringValue (Some v))),
       user_data_shared = Some (BoolValue (UserDataShared analyticsConfig))\<rparr>]"

subsection \<open>Create, Read, Update, Delete\<close>

text \<open>
  The request that \<^verbatim>\<open>resourceAwsCognitoUserPoolClientCreate\<close> builds in \<^verbatim>\<open>params\<close>,
  one \<^verbatim>\<open>GetOk\<close> per optional field.
\<close>

definition CreateParams :: "ResourceData \<Rightarrow> CreateUserPoolClientInput" where
  "CreateParams d =
    \<lparr>Create_ClientName = Some (Get_string (name d)),
     Create_UserPoolId = Some (Get_string (user_pool_id d)),
     Create_GenerateSecret =
       (case GetOk_bool (generate_secret d) of Some v \<Rightarrow> Some v | None \<Rightarrow> None),
     Create_ExplicitAuthFlows =
       (case GetOk_set (explicit_auth_flows d) of Some v \<Rightarrow> Some (expandStringSet v) | None \<Rightarrow> None),
     Create_ReadAttributes =
       (case GetOk_set (read_attributes d) of Some v \<Rightarrow> Some (expandStringSet v) | None \<Rightarrow> None),
     Create_WriteAttributes =
       (case GetOk_set (write_attributes d) of Some v \<Rightarrow> Some (expandStringSet v) | None \<Rightarrow> None),
     Create_RefreshTokenValidity =
       (case GetOk_int (refresh_token_validity d) of Some v \<Rightarrow> Some v | None \<Rightarrow> None),
     Create_AllowedOAuthFlows =
       (case GetOk_set (allowed_oauth_flows d) of Some v \<Rightarrow> Some (expandStringSet v) | None \<Rightarrow> None),
     Create_AllowedOAuthFlowsUserPoolClient =
       (case GetOk_bool (allowed_oauth_flows_user_pool_client d) of Some v \<Rightarrow> Some v | None \<Rightarrow> None),
     Create_AllowedOAuthScopes =
       (case GetOk_set (allowed_oauth_scopes d) of Some v \<Rightarrow> Some (expandStringSet v) | None \<Rightarrow> None),
     Create_CallbackURLs =
       (case GetOk_set (callback_urls d) of Some v \<Rightarrow> Some (expandStringSet v) | None \<Rightarrow> None),
     Create_DefaultRedirectURI =
       (case GetOk_string (default_redirect_uri d) of Some v \<Rightarrow> Some v | None \<Rightarrow> None),
     Create_LogoutURLs =
       (case GetOk_set (logout_urls d) of Some v \<Rightarrow> Some (expandStringSet v) | None \<Rightarrow> None),
     Create_SupportedIdentityProviders =
       (case GetOk_set (supported_identity_providers d) of
          Some v \<Rightarrow> Some (expandStringSet v) | None \<Rightarrow> None),
     Create_AnalyticsConfiguration =
       (case GetOk_list (analytics_configuration d) of
          Some v \<Rightarrow> expandAwsCognitoUserPoolClientAnalyticsConfig v | None \<Rightarrow> None),
     Create_PreventUserExistenceErrors =
       (case GetOk_string (prevent_user_existence_errors d) of Some v \<Rightarrow> Some v | None \<Rightarrow> None)\<rparr>"

text \<open>
  \<^verbatim>\<open>resourceAwsCognitoUserPoolClientRead\<close>. A \<^verbatim>\<open>d.Set\<close> with a \<^verbatim>\<open>nil\<close> pointer
  removes the attribute's value, one with a pointer stores the value pointed to, one with a
  set (also the set without elements) stores that set. \<^verbatim>\<open>d.Set\<close> fails on a value of
  the wrong type only, which no call here passes, so the error return after the last
  \<^verbatim>\<open>d.Set\<close> is not a branch.
\<close>

definition resourceAwsCognitoUserPoolClientRead ::
  "cognitoidpconn \<Rightarrow> ResourceData \<Rightarrow> ResourceData \<times> error option" where
  "resourceAwsCognitoUserPoolClientRead conn d =
    (let params = \<lparr>Describe_ClientId = Some (Id' d),
                   Describe_UserPoolId = Some (Get_string (user_pool_id d))\<rparr>
     in case DescribeUserPoolClient conn params of
          Inl err \<Rightarrow>
            if isAWSErr err ErrCodeResourceNotFoundException []
            then (d\<lparr>Id' := []\<rparr>, None)
            else (d, Some (Propagated err))
        | Inr resp \<Rightarrow>
            (d\<lparr>Id' := StringValue (ClientId resp),
               user_pool_id := UserPoolId resp,
               name := ClientName resp,
               explicit_auth_flows := Some (flattenStringSet (ExplicitAuthFlows resp)),
               read_attributes := Some (flattenStringSet (ReadAttributes resp)),
               write_attributes := Some (flattenStringSet (WriteAttributes resp)),
               refresh_token_validity := RefreshTokenValidity resp,
               client_secret := ClientSecret resp,
               allowed_oauth_flows := Some (flattenStringSet (AllowedOAuthFlows resp)),
               allowed_oauth_flows_user_pool_client := AllowedOAuthFlowsUserPoolClient resp,
               allowed_oauth_scopes := Some (flattenStringSet (AllowedOAuthScopes resp)),
               callback_urls := Some (flattenStringSet (CallbackURLs resp)),
               default_redirect_uri := DefaultRedirectURI resp,
               logout_urls := Some (flattenStringSet (LogoutURLs resp)),
               prevent_user_existence_errors := PreventUserExistenceErrors resp,
               supported_identity_providers :=
                 Some (flattenStringSet (SupportedIdentityProviders resp)),
               analytics_configuration :=
                 Some (flattenAwsCognitoUserPoolClientAnalyticsConfig (AnalyticsConfiguration resp))\<rparr>,
             None))"

definition resourceAwsCognitoUserPoolClientCreate ::
  "cognitoidpconn \<Rightarrow> ResourceData \<Rightarrow> ResourceData \<times> error option" where
  "resourceAwsCognitoUserPoolClientCreate conn d =
    (case CreateUserPoolClient conn (CreateParams d) of
       Inl err \<Rightarrow> (d, Some (Errorf ''Error creating Cognito User Pool Client'' err))
     | Inr resp \<Rightarrow>
         resourceAwsCognitoUserPoolClientRead conn (d\<lparr>Id' := StringValue (ClientId resp)\<rparr>))"

text \<open>The request that \<^verbatim>\<open>resourceAwsCognitoUserPoolClientUpdate\<close> builds in \<^verbatim>\<open>params\<close>.\<close>

definition UpdateParams :: "ResourceData \<Rightarrow> UpdateUserPoolClientInput" where
  "UpdateParams d =
    \<lparr>Update_ClientId = Some (Id' d),
     Update_UserPoolId = Some (Get_string (user_pool_id d)),
     Update_ClientName =
       (case GetOk_string (name d) of Some v \<Rightarrow> Some v | None \<Rightarrow> None),
     Update_ExplicitAuthFlows =
       (case GetOk_set (explicit_auth_flows d) of Some v \<Rightarrow> Some (expandStringSet v) | None \<Rightarrow> None),
     Update_ReadAttributes =
       (case GetOk_set (read_attributes d) of Some v \<Rightarrow> Some (expandStringSet v) | None \<Rightarrow> None),
     Update_WriteAttributes =
       (case GetOk_set (write_attributes d) of Some v \<Rightarrow> Some (expandStringSet v) | None \<Rightarrow> None),
     Update_RefreshTokenValidity =
       (case GetOk_int (refresh_token_validity d) of Some v \<Rightarrow> Some v | None \<Rightarrow> None),
     Update_AllowedOAuthFlows =
       (case GetOk_set (allowed_oauth_flows d) of Some v \<Rightarrow> Some (expandStringSet v) | None \<Rightarrow> None),
     Update_AllowedOAuthFlowsUserPoolClient =
       (case GetOk_bool (allowed_oauth_flows_user_pool_client d) of Some v \<Rightarrow> Some v | None \<Rightarrow> None),
     Update_AllowedOAuthScopes =
       (case GetOk_set (allowed_oauth_scopes d) of Some v \<Rightarrow> Some (expandStringSet v) | None \<Rightarrow> None),
     Update_CallbackURLs =
       (case GetOk_set (callback_urls d) of Some v \<Rightarrow> Some (expandStringSet v) | None \<Rightarrow> None),
     Update_DefaultRedirectURI =
       (case GetOk_string (default_redirect_uri d) of Some v \<Rightarrow> Some v | None \<Rightarrow> None),
     Update_LogoutURLs =
       (case GetOk_set (logout_urls d) of Some v \<Rightarrow> Some (expandStringSet v) | None \<Rightarrow> None),
     Update_PreventUserExistenceErrors =
       (case GetOk_string (prevent_user_existence_errors d) of Some v \<Rightarrow> Some v | None \<Rightarrow> None),
     Update_SupportedIdentityProviders =
       (case GetOk_set (supported_identity_providers d) of
          Some v \<Rightarrow> Some (expandStringSet v) | None \<Rightarrow> None),
     Update_AnalyticsConfiguration =
       (case GetOk_list (analytics_configuration d) of
          Some v \<Rightarrow> expandAwsCognitoUserPoolClientAnalyticsConfig v | None \<Rightarrow> None)\<rparr>"

definition resourceAwsCognitoUserPoolClientUpdate ::
  "cognitoidpconn \<Rightarrow> ResourceData \<Rightarrow> ResourceData \<times> error option" where
  "resourceAwsCognitoUserPoolClientUpdate conn d =
    (case UpdateUserPoolClient conn (UpdateParams d) of
       Inl err \<Rightarrow> (d, Some (Errorf ''Error updating Cognito User Pool Client'' err))
     | Inr _ \<Rightarrow> resourceAwsCognitoUserPoolClientRead conn d)"

definition resourceAwsCognitoUserPoolClientDelete ::
  "cognitoidpconn \<Rightarrow> ResourceData \<Rightarrow> ResourceData \<times> error option" where
  "resourceAwsCognitoUserPoolClientDelete conn d =
    (let params = \<lparr>Delete_ClientId = Some (Id' d),
                   Delete_UserPoolId = Some (Get_string (user_pool_id d))\<rparr>
     in case DeleteUserPoolClient conn params of
          Inl err \<Rightarrow> (d, Some (Errorf ''Error deleting Cognito User Pool Client'' err))
        | Inr _ \<Rightarrow> (d, None))"

subsection \<open>The schema\<close>

text \<open>
  The \<^verbatim>\<open>Schema\<close> map of \<^verbatim>\<open>resourceAwsCognitoUserPoolClient\<close>. An attribute's entry
  is the struct literal of the source: \<open>Schema0\<close> is the struct with every field at its
  zero value, and the entry updates the fields the literal names. \<open>Elem_ValidateFunc\<close> is
  the \<^verbatim>\<open>ValidateFunc\<close> of a set's \<^verbatim>\<open>Elem\<close>; \<open>MaxItems = 0\<close> is no bound.
\<close>

datatype attr =
    attr_name
  | attr_client_secret
  | attr_generate_secret
  | attr_user_pool_id
  | attr_explicit_auth_flows
  | attr_read_attributes
  | attr_write_attributes
  | attr_refresh_token_validity
  | attr_allowed_oauth_flows
  | attr_allowed_oauth_flows_user_pool_client
  | attr_allowed_oauth_scopes
  | attr_callback_urls
  | attr_default_redirect_uri
  | attr_logout_urls
  | attr_prevent_user_existence_errors
  | attr_supported_identity_providers
  | attr_analytics_configuration

datatype ValueType = TypeString | TypeBool | TypeInt | TypeSet | TypeList

datatype ValidateFunc =
    StringInSlice_ExplicitAuthFlowsType_Values
  | StringInSlice_OAuthFlowType_Values
  | IntBetween int int
  | validateCognitoUserPoolClientURL

record Schema =
  Type :: ValueType
  Required :: bool
  Optional :: bool
  Computed :: bool
  ForceNew :: bool
  Sensitive :: bool
  Default :: "int option"
  MaxItems :: nat
  MinItems :: nat
  ValidateFunc :: "ValidateFunc option"
  Elem_ValidateFunc :: "ValidateFunc option"

definition Schema0 :: Schema where
  "Schema0 = \<lparr>Type = TypeString, Required = False, Optional = False, Computed = False,
     ForceNew = False, Sensitive = False, Default = None, MaxItems = 0, MinItems = 0,
     ValidateFunc = None, Elem_ValidateFunc = None\<rparr>"

fun resourceAwsCognitoUserPoolClient_Schema :: "attr \<Rightarrow> Schema" where
  "resourceAwsCognitoUserPoolClient_Schema attr_name =
     Schema0\<lparr>Type := TypeString, Required := True\<rparr>"
| "resourceAwsCognitoUserPoolClient_Schema attr_client_secret =
     Schema0\<lparr>Type := TypeString, Computed := True, Sensitive := True\<rparr>"
| "resourceAwsCognitoUserPoolClient_Schema attr_generate_secret =
     Schema0\<lparr>Type := TypeBool, Optional := True, ForceNew := True\<rparr>"
| "resourceAwsCognitoUserPoolClient_Schema attr_user_pool_id =
     Schema0\<lparr>Type := TypeString, Required := True, ForceNew := True\<rparr>"
| "resourceAwsCognitoUserPoolClient_Schema attr_explicit_auth_flows =
     Schema0\<lparr>Type := TypeSet, Optional := True,
       Elem_ValidateFunc := Some StringInSlice_ExplicitAuthFlowsType_Values\<rparr>"
| "resourceAwsCognitoUserPoolClient_Schema attr_read_attributes =
     Schema0\<lparr>Type := TypeSet, Optional := True\<rparr>"
| "resourceAwsCognitoUserPoolClient_Schema attr_write_attributes =
     Schema0\<lparr>Type := TypeSet, Optional := True\<rparr>"
| "resourceAwsCognitoUserPoolClient_Schema attr_refresh_token_validity =
     Schema0\<lparr>Type := TypeInt, Optional := True, Default := Some 30,
       ValidateFunc := Some (IntBetween 0 3650)\<rparr>"
| "resourceAwsCognitoUserPoolClient_Schema attr_allowed_oauth_flows =
     Schema0\<lparr>Type := TypeSet, Optional := True, MaxItems := 3,
       Elem_ValidateFunc := Some StringInSlice_OAuthFlowType_Values\<rparr>"
| "resourceAwsCognitoUserPoolClient_Schema attr_allowed_oauth_flows_user_pool_client =
     Schema0\<lparr>Type := TypeBool, Optional := True\<rparr>"
| "resourceAwsCognitoUserPoolClient_Schema attr_allowed_oauth_scopes =
     Schema0\<lparr>Type := TypeSet, Optional := True, MaxItems := 50\<rparr>"
| "resourceAwsCognitoUserPoolClient_Schema attr_callback_urls =
     Schema0\<lparr>Type := TypeSet, Optional := True, MaxItems := 100,
       Elem_ValidateFunc := Some validateCognitoUserPoolClientURL\<rparr>"
| "resourceAwsCognitoUserPoolClient_Schema attr_default_redirect_uri =
     Schema0\<lparr>Type := TypeString, Optional := True\<rparr>"
| "resourceAwsCognitoUserPoolClient_Schema attr_logout_urls =
     Schema0\<lparr>Type := TypeSet, Optional := True, MaxItems := 100,
       Elem_ValidateFunc := Some validateCognitoUserPoolClientURL\<rparr>"
| "resourceAwsCognitoUserPoolClient_Schema attr_prevent_user_existence_errors =
     Schema0\<lparr>Type := TypeString, Optional := True, Computed := True\<rparr>"
| "resourceAwsCognitoUserPoolClient_Schema attr_supported_identity_providers =
     Schema0\<lparr>Type := TypeSet, Optional := True\<rparr>"
| "resourceAwsCognitoUserPoolClient_Schema attr_analytics_configuration =
     Schema0\<lparr>Type := TypeList, Optional := True, MaxItems := 1, MinItems := 1\<rparr>"

definition attrs :: "attr list" where
  "attrs = [attr_name, attr_client_secret, attr_generate_secret, attr_user_pool_id,
     attr_explicit_auth_flows, attr_read_attributes, attr_write_attributes,
     attr_refresh_token_validity, attr_allowed_oauth_flows,
     attr_allowed_oauth_flows_user_pool_client, attr_allowed_oauth_scopes, attr_callback_urls,
     attr_default_redirect_uri, attr_logout_urls, attr_prevent_user_existence_errors,
     attr_supported_identity_providers, attr_analytics_configuration]"

text \<open>The value of an attribute in a resource data, by the attribute's type.\<close>

datatype val =
    VString string
  | VBool bool
  | VInt int
  | VSet "string fset"
  | VList "analytics_block list"

fun attr_value :: "ResourceData \<Rightarrow> attr \<Rightarrow> val option" where
  "attr_value d attr_name = map_option VString (name d)"
| "attr_value d attr_client_secret = map_option VString (client_secret d)"
| "attr_value d attr_generate_secret = map_option VBool (generate_secret d)"
| "attr_value d attr_user_pool_id = map_option VString (user_pool_id d)"
| "attr_value d attr_explicit_auth_flows = map_option VSet (explicit_auth_flows d)"
| "attr_value d attr_read_attributes = map_option VSet (read_attributes d)"
| "attr_value d attr_write_attributes = map_option VSet (write_attributes d)"
| "attr_value d attr_refresh_token_validity = map_option VInt (refresh_token_validity d)"
| "attr_value d attr_allowed_oauth_flows = map_option VSet (allowed_oauth_flows d)"
| "attr_value d attr_allowed_oauth_flows_user_pool_client =
     map_option VBool (allowed_oauth_flows_user_pool_client d)"
| "attr_value d attr_allowed_oauth_scopes = map_option VSet (allowed_oauth_scopes d)"
| "attr_value d attr_callback_urls = map_option VSet (callback_urls d)"
| "attr_value d attr_default_redirect_uri = map_option VString (default_redirect_uri d)"
| "attr_value d attr_logout_urls = map_option VSet (logout_urls d)"
| "attr_value d attr_prevent_user_existence_errors =
     map_option VString (prevent_user_existence_errors d)"
| "attr_value d attr_supported_identity_providers =
     map_option VSet (supported_identity_providers d)"
| "attr_value d attr_analytics_configuration = map_option VList (analytics_configuration d)"

text \<open>\<^verbatim>\<open>ValueType.Zero\<close> and \<^verbatim>\<open>d.Get\<close> for any attribute.\<close>

fun Zero :: "ValueType \<Rightarrow> val" where
  "Zero TypeString = VString []"
| "Zero TypeBool = VBool False"
| "Zero TypeInt = VInt 0"
| "Zero TypeSet = VSet {||}"
| "Zero TypeList = VList []"

definition Get :: "ResourceData \<Rightarrow> attr \<Rightarrow> val" where
  "Get d a = (case attr_value d a of
                None \<Rightarrow> Zero (Type (resourceAwsCognitoUserPoolClient_Schema a))
              | Some v \<Rightarrow> v)"

subsection \<open>Validation\<close>

text \<open>
  Modelled from the spec: the Validator, which is the plugin SDK's schema validation and
  not part of this file. It checks a resource data against the schema above: a required
  attribute is set, a set has at most \<open>MaxItems\<close> elements, a list between \<open>MinItems\<close>
  and \<open>MaxItems\<close>, and every value passes its \<^verbatim>\<open>ValidateFunc\<close>; in the nested block,
  exactly one of \<^verbatim>\<open>application_id\<close> and \<^verbatim>\<open>application_arn\<close> is set, and
  \<^verbatim>\<open>application_arn\<close> excludes \<^verbatim>\<open>external_id\<close> and \<^verbatim>\<open>role_arn\<close>. All violations
  are collected.

  The allowed values of the two enumerations come from the remote API's SDK, and the URL
  and ARN checks are helpers of the provider outside this file: the Validator takes the
  four as parameters.
\<close>

record validators =
  ExplicitAuthFlowsType_Values :: "string list"
  OAuthFlowType_Values :: "string list"
  validURL :: "string \<Rightarrow> bool"
  validateArn :: "string \<Rightarrow> bool"

datatype ConstraintViolation =
    MissingRequired attr
  | TooManyItems attr nat
  | TooFewItems attr nat
  | NotInSlice attr string
  | NotInRange attr int
  | InvalidURL attr string
  | InvalidArn string string
  | ExactlyOneOf string string
  | ConflictsWith string string

fun check_ValidateFunc ::
  "validators \<Rightarrow> attr \<Rightarrow> ValidateFunc option \<Rightarrow> val \<Rightarrow> ConstraintViolation list" where
  "check_ValidateFunc V a (Some StringInSlice_ExplicitAuthFlowsType_Values) (VString v) =
     (if v \<in> set (ExplicitAuthFlowsType_Values V) then [] else [NotInSlice a v])"
| "check_ValidateFunc V a (Some StringInSlice_OAuthFlowType_Values) (VString v) =
     (if v \<in> set (OAuthFlowType_Values V) then [] else [NotInSlice a v])"
| "check_ValidateFunc V a (Some validateCognitoUserPoolClientURL) (VString v) =
     (if validURL V v then [] else [InvalidURL a v])"
| "check_ValidateFunc V a (Some (IntBetween lo hi)) (VInt i) =
     (if lo \<le> i \<and> i \<le> hi then [] else [NotInRange a i])"
| "check_ValidateFunc V a _ _ = []"

definition validate_block :: "validators \<Rightarrow> analytics_block \<Rightarrow> ConstraintViolation list" where
  "validate_block V m =
     (if (application_id m \<noteq> None) \<noteq> (application_arn m \<noteq> None) then []
      else [ExactlyOneOf ''application_id'' ''application_arn''])
     @ (if application_arn m \<noteq> None \<and> external_id m \<noteq> None
        then [ConflictsWith ''application_arn'' ''external_id''] else [])
     @ (if application_arn m \<noteq> None \<and> role_arn m \<noteq> None
        then [ConflictsWith ''application_arn'' ''role_arn''] else [])
     @ (case application_arn m of None \<Rightarrow> []
        | Some v \<Rightarrow> if validateArn V v then [] else [InvalidArn ''application_arn'' v])
     @ (case role_arn m of None \<Rightarrow> []
        | Some v \<Rightarrow> if validateArn V v then [] else [InvalidArn ''role_arn'' v])"

definition validate_attr :: "validators \<Rightarrow> ResourceData \<Rightarrow> attr \<Rightarrow> ConstraintViolation list" where
  "validate_attr V d a =
     (let s = resourceAwsCognitoUserPoolClient_Schema a in
      case attr_value d a of
        None \<Rightarrow> (if Required s then [MissingRequired a] else [])
      | Some (VSet xs) \<Rightarrow>
          (if 0 < MaxItems s \<and> MaxItems s < fcard xs then [TooManyItems a (fcard xs)] else [])
          @ concat (map (\<lambda>x. check_ValidateFunc V a (Elem_ValidateFunc s) (VString x))
                      (sorted_list_of_fset xs))
      | Some (VList l) \<Rightarrow>
          (if 0 < MaxItems s \<and> MaxItems s < length l then [TooManyItems a (length l)] else [])
          @ (if length l < MinItems s then [TooFewItems a (length l)] else [])
          @ concat (map (validate_block V) l)
      | Some v \<Rightarrow> check_ValidateFunc V a (ValidateFunc s) v)"

definition validate :: "validators \<Rightarrow> ResourceData \<Rightarrow> ConstraintViolation list" where
  "validate V d = concat (map (validate_attr V d) attrs)"

text \<open>
  Modelled from the spec: the Validator runs before every Create and Update, in the plugin
  SDK and not in this file. A resource data with a violation reaches no function of the
  resource; its violations are the result.
\<close>

definition validated ::
  "validators \<Rightarrow> (ResourceData \<Rightarrow> ResourceData \<times> error option) \<Rightarrow> ResourceData
     \<Rightarrow> ConstraintViolation list + ResourceData \<times> error option" where
  "validated V f d = (case validate V d of [] \<Rightarrow> Inr (f d) | v # vs \<Rightarrow> Inl (v # vs))"

subsection \<open>Classification of differences\<close>

text \<open>
  Modelled from the spec: the Diff Engine, which is the plugin SDK's and not part of this
  file. It reads the schema above. An attribute whose value did not change is ignored; a
  changed attribute with \<^verbatim>\<open>ForceNew\<close> is a Replace, on any change, also one between
  an unset value and a set one; a \<^verbatim>\<open>Computed\<close> attribute that the old state has and the
  new state leaves unset is ignored; any other changed attribute is an Update. The verb
  for the resource is Replace as soon as one attribute is a Replace.
\<close>

datatype Classification = Update | Replace | Ignore

definition classify :: "ResourceData \<Rightarrow> ResourceData \<Rightarrow> attr \<Rightarrow> Classification" where
  "classify old new a =
     (let s = resourceAwsCognitoUserPoolClient_Schema a in
      if attr_value old a = attr_value new a then Ignore
      else if ForceNew s then Replace
      else if Computed s \<and> attr_value new a = None then Ignore
      else Update)"

datatype Verb = VerbNone | VerbUpdate | VerbReplace

definition chosen_verb :: "ResourceData \<Rightarrow> ResourceData \<Rightarrow> Verb" where
  "chosen_verb old new =
     (if list_ex (\<lambda>a. classify old new a = Replace) attrs then VerbReplace
      else if list_ex (\<lambda>a. classify old new a = Update) attrs then VerbUpdate
      else VerbNone)"

subsection \<open>Inputs for the examples\<close>

text \<open>A resource data with the given id and no attribute set.\<close>

definition blank :: "string \<Rightarrow> ResourceData" where
  "blank i = \<lparr>Id' = i, name = None, client_secret = None, generate_secret = None,
     user_pool_id = None, explicit_auth_flows = None, read_attributes = None,
     write_attributes = None, refresh_token_validity = None, allowed_oauth_flows = None,
     allowed_oauth_flows_user_pool_client = None, allowed_oauth_scopes = None,
     callback_urls = None, default_redirect_uri = None, logout_urls = None,
     prevent_user_existence_errors = None, supported_identity_providers = None,
     analytics_configuration = None\<rparr>"

text \<open>A connection whose four calls all answer with the error \<open>e\<close>.\<close>

definition conn_fail :: "transport_error \<Rightarrow> cognitoidpconn" where
  "conn_fail e = \<lparr>CreateUserPoolClient = (\<lambda>_. Inl e), DescribeUserPoolClient = (\<lambda>_. Inl e),
     UpdateUserPoolClient = (\<lambda>_. Inl e), DeleteUserPoolClient = (\<lambda>_. Inl e)\<rparr>"

text \<open>A connection whose calls all succeed, the create and describe calls with \<open>r\<close>.\<close>

definition conn_ok :: "UserPoolClientType \<Rightarrow> cognitoidpconn" where
  "conn_ok r = \<lparr>CreateUserPoolClient = (\<lambda>_. Inr r), DescribeUserPoolClient = (\<lambda>_. Inr r),
     UpdateUserPoolClient = (\<lambda>_. Inr ()), DeleteUserPoolClient = (\<lambda>_. Inr ())\<rparr>"

text \<open>
  Modelled from the spec: the remote system that echoes back everything unchanged. It
  assigns the client id \<open>cid\<close>, and its response to a create request carries each field
  of the request as sent and nothing the request did not carry. A connection to it answers
  a create request with its echo, and a describe call with the echo of the request \<open>p\<close>
  that created the client.
\<close>

definition echo :: "string \<Rightarrow> CreateUserPoolClientInput \<Rightarrow> UserPoolClientType" where
  "echo cid p =
    \<lparr>ClientId = Some cid,
     UserPoolId = Create_UserPoolId p,
     ClientName = Create_ClientName p,
     ExplicitAuthFlows = Create_ExplicitAuthFlows p,
     ReadAttributes = Create_ReadAttributes p,
     WriteAttributes = Create_WriteAttributes p,
     RefreshTokenValidity = Create_RefreshTokenValidity p,
     ClientSecret = None,
     AllowedOAuthFlows = Create_AllowedOAuthFlows p,
     AllowedOAuthFlowsUserPoolClient = Create_AllowedOAuthFlowsUserPoolClient p,
     AllowedOAuthScopes = Create_AllowedOAuthScopes p,
     CallbackURLs = Create_CallbackURLs p,
     DefaultRedirectURI = Create_DefaultRedirectURI p,
     LogoutURLs = Create_LogoutURLs p,
     PreventUserExistenceErrors = Create_PreventUserExistenceErrors p,
     SupportedIdentityProviders = Create_SupportedIdentityProviders p,
     AnalyticsConfiguration = Create_AnalyticsConfiguration p\<rparr>"

definition echo_conn :: "string \<Rightarrow> CreateUserPoolClientInput \<Rightarrow> cognitoidpconn" where
  "echo_conn cid p = \<lparr>CreateUserPoolClient = (\<lambda>q. Inr (echo cid q)),
     DescribeUserPoolClient = (\<lambda>_. Inr (echo cid p)),
     UpdateUserPoolClient = (\<lambda>_. Inr ()), DeleteUserPoolClient = (\<lambda>_. Inr ())\<rparr>"

text \<open>
  Modelled from the spec: what it is for a response \<open>r\<close> to echo the create request \<open>p\<close>.
  Every field that \<open>p\<close> carries comes back unchanged, a list in any order, and a field
  that is not Computed and that \<open>p\<close> left out comes back \<^verbatim>\<open>nil\<close>. What the request
  cannot carry (the client id and the client secret) and a Computed field that \<open>p\<close> left
  out (\<^verbatim>\<open>PreventUserExistenceErrors\<close>, the nested \<^verbatim>\<open>RoleArn\<close>) are the remote's to
  assign.
\<close>

definition echoes_analytics ::
  "AnalyticsConfigurationType option \<Rightarrow> AnalyticsConfigurationType option \<Rightarrow> bool" where
  "echoes_analytics sent got =
     (case sent of
        None \<Rightarrow> got = None
      | Some c \<Rightarrow>
          (case got of
             None \<Rightarrow> False
           | Some c' \<Rightarrow>
               ApplicationArn c' = ApplicationArn c \<and> ApplicationId c' = ApplicationId c
               \<and> ExternalId c' = ExternalId c \<and> UserDataShared c' = UserDataShared c
               \<and> (RoleArn c \<noteq> None \<longrightarrow> RoleArn c' = RoleArn c)))"

definition echoes :: "CreateUserPoolClientInput \<Rightarrow> UserPoolClientType \<Rightarrow> bool" where
  "echoes p r =
     (UserPoolId r = Create_UserPoolId p
      \<and> ClientName r = Create_ClientName p
      \<and> map_option set (ExplicitAuthFlows r) = map_option set (Create_ExplicitAuthFlows p)
      \<and> map_option set (ReadAttributes r) = map_option set (Create_ReadAttributes p)
      \<and> map_option set (WriteAttributes r) = map_option set (Create_WriteAttributes p)
      \<and> RefreshTokenValidity r = Create_RefreshTokenValidity p
      \<and> map_option set (AllowedOAuthFlows r) = map_option set (Create_AllowedOAuthFlows p)
      \<and> AllowedOAuthFlowsUserPoolClient r = Create_AllowedOAuthFlowsUserPoolClient p
      \<and> map_option set (AllowedOAuthScopes r) = map_option set (Create_AllowedOAuthScopes p)
      \<and> map_option set (CallbackURLs r) = map_option set (Create_CallbackURLs p)
      \<and> DefaultRedirectURI r = Create_DefaultRedirectURI p
      \<and> map_option set (LogoutURLs r) = map_option set (Create_LogoutURLs p)
      \<and> map_option set (SupportedIdentityProviders r)
          = map_option set (Create_SupportedIdentityProviders p)
      \<and> (Create_PreventUserExistenceErrors p \<noteq> None
           \<longrightarrow> PreventUserExistenceErrors r = Create_PreventUserExistenceErrors p)
      \<and> echoes_analytics (Create_AnalyticsConfiguration p) (AnalyticsConfiguration r))"

text \<open>
  \<^verbatim>\<open>d.Get\<close> on the nested block: the list of blocks (none when the attribute is not
  set), and in a block the value of each key, the zero value for a missing key.
\<close>

definition Get_list :: "'a list option \<Rightarrow> 'a list" where
  "Get_list v = (case v of None \<Rightarrow> [] | Some l \<Rightarrow> l)"

definition block_Get :: "analytics_block \<Rightarrow> string \<times> string \<times> string \<times> string \<times> bool" where
  "block_Get m = (Get_string (application_id m), Get_string (application_arn m),
     Get_string (external_id m), Get_string (role_arn m), BoolValue (user_data_shared m))"

text \<open>The keys of a block that are not Computed, read as \<open>block_Get\<close> reads them.\<close>

definition block_settable :: "analytics_block \<Rightarrow> string \<times> string \<times> string \<times> bool" where
  "block_settable m = (Get_string (application_id m), Get_string (application_arn m),
     Get_string (external_id m), BoolValue (user_data_shared m))"

text \<open>
  Validators for the examples: the enumerations of the remote API's SDK, and URL and ARN
  checks that accept every string.
\<close>

definition validators0 :: validators where
  "validators0 = \<lparr>ExplicitAuthFlowsType_Values = [''ADMIN_NO_SRP_AUTH'', ''CUSTOM_AUTH_FLOW_ONLY'',
       ''USER_PASSWORD_AUTH'', ''ALLOW_ADMIN_USER_PASSWORD_AUTH'', ''ALLOW_CUSTOM_AUTH'',
       ''ALLOW_USER_PASSWORD_AUTH'', ''ALLOW_USER_SRP_AUTH'', ''ALLOW_REFRESH_TOKEN_AUTH''],
     OAuthFlowType_Values = [''code'', ''implicit'', ''client_credentials''],
     validURL = (\<lambda>_. True), validateArn = (\<lambda>_. True)\<rparr>"

text \<open>The configuration of the spec's scenario: a name and a user pool, nothing else.\<close>

definition app1 :: ResourceData where
  "app1 = (blank [])\<lparr>name := Some ''app1'', user_pool_id := Some ''pool1''\<rparr>"

text \<open>
  The spec's scenario: the configuration above with \<^verbatim>\<open>generate_secret\<close> set, and the
  response of a remote that echoes its create request and assigns the client id \<open>c-1\<close>,
  the secret \<open>sek-1\<close> and a value for \<^verbatim>\<open>PreventUserExistenceErrors\<close>.
\<close>

definition app1_secret :: ResourceData where
  "app1_secret = app1\<lparr>generate_secret := Some True\<rparr>"

definition resp1 :: UserPoolClientType where
  "resp1 = (echo ''c-1'' (CreateParams app1_secret))
     \<lparr>ClientSecret := Some ''sek-1'', PreventUserExistenceErrors := Some ''ENABLED''\<rparr>"

section \<open>Import\<close>

lemma Split_nonempty: "Split s c \<noteq> []"
  by (induction s) (auto split: list.splits)

lemma length_Split: "length (Split s c) = Suc (count_list s c)"
  by (induction s) (auto split: list.splits simp: Split_nonempty)

lemma Split_no_sep: "count_list s c = 0 \<Longrightarrow> Split s c = [s]"
  by (induction s) (auto split: list.splits if_splits)

lemma Split_two:
  "sep \<notin> set p \<Longrightarrow> sep \<notin> set c \<Longrightarrow> Split (p @ sep # c) sep = [p, c]"
proof (induction p)
  case Nil
  then show ?case by (simp add: Split_no_sep)
next
  case (Cons x p)
  then show ?case by auto
qed

lemma Split_two_conv:
  assumes "length (Split s sep) = 2"
  shows "\<exists>p c. s = p @ sep # c \<and> sep \<notin> set p \<and> sep \<notin> set c \<and> Split s sep = [p, c]"
proof -
  define p where "p = takeWhile (\<lambda>x. x \<noteq> sep) s"
  define r where "r = dropWhile (\<lambda>x. x \<noteq> sep) s"
  from assms have n: "count_list s sep = 1" by (simp add: length_Split)
  have s: "p @ r = s" by (simp add: p_def r_def)
  have p: "sep \<notin> set p" by (auto simp: p_def dest: set_takeWhileD)
  then have "count_list p sep = 0" by (simp add: count_list_0_iff)
  moreover have "count_list (p @ r) sep = 1" using n s by simp
  ultimately have r1: "count_list r sep = 1" by simp
  then have rn: "r \<noteq> []" by (cases r) simp_all
  then have "hd r = sep"
    using hd_dropWhile [of "\<lambda>x. x \<noteq> sep" s] by (simp add: r_def)
  with rn obtain c where r: "r = sep # c" by (cases r) auto
  with r1 have c: "sep \<notin> set c" by (simp add: count_list_0_iff)
  from s r have eq: "s = p @ sep # c" by simp
  have "Split (p @ sep # c) sep = [p, c]" using p c by (rule Split_two)
  with eq have "Split s sep = [p, c]" by simp
  with eq p c show ?thesis by blast
qed

text \<open>
  The import in general. It succeeds only on an identifier that is two parts around one
  separator \<open>/\<close> and has at least three characters, and it succeeds on every identifier
  whose two parts are both non-empty. On success it sets \<^verbatim>\<open>user_pool_id\<close> to the first
  part and the id to the second; on failure the error is the format error that names the
  identifier. So \<open>pool123/clientABC\<close> gives \<open>(pool123, clientABC)\<close> and \<open>a/b\<close> gives
  \<open>(a, b)\<close>, while \<open>pool123\<close> and \<open>a/b/c\<close> fail.
\<close>

theorem import_parse:
  "(\<forall>d'. resourceAwsCognitoUserPoolClientImport d = Inr d' \<longrightarrow>
      (\<exists>p c. Id' d = p @ CHR ''/'' # c \<and> CHR ''/'' \<notin> set p \<and> CHR ''/'' \<notin> set c
         \<and> 3 \<le> length (Id' d) \<and> d' = d\<lparr>Id' := c, user_pool_id := Some p\<rparr>))
   \<and> (\<forall>p c. Id' d = p @ CHR ''/'' # c \<and> p \<noteq> [] \<and> c \<noteq> []
         \<and> CHR ''/'' \<notin> set p \<and> CHR ''/'' \<notin> set c \<longrightarrow>
       resourceAwsCognitoUserPoolClientImport d = Inr (d\<lparr>Id' := c, user_pool_id := Some p\<rparr>))
   \<and> (\<forall>e. resourceAwsCognitoUserPoolClientImport d = Inl e \<longrightarrow> e = WrongFormat (Id' d))
   \<and> resourceAwsCognitoUserPoolClientImport (blank ''pool123/clientABC'')
       = Inr ((blank ''clientABC'')\<lparr>user_pool_id := Some ''pool123''\<rparr>)
   \<and> resourceAwsCognitoUserPoolClientImport (blank ''a/b'')
       = Inr ((blank ''b'')\<lparr>user_pool_id := Some ''a''\<rparr>)
   \<and> resourceAwsCognitoUserPoolClientImport (blank ''pool123'') = Inl (WrongFormat ''pool123'')
   \<and> resourceAwsCognitoUserPoolClientImport (blank ''a/b/c'') = Inl (WrongFormat ''a/b/c'')"
proof -
  have a: "\<exists>p c. Id' d = p @ CHR ''/'' # c \<and> CHR ''/'' \<notin> set p \<and> CHR ''/'' \<notin> set c
         \<and> 3 \<le> length (Id' d) \<and> d' = d\<lparr>Id' := c, user_pool_id := Some p\<rparr>"
    if h: "resourceAwsCognitoUserPoolClientImport d = Inr d'" for d'
  proof -
    from h have l: "length (Split (Id' d) CHR ''/'') = 2" and n: "3 \<le> length (Id' d)"
      and d': "d' = d\<lparr>Id' := Split (Id' d) CHR ''/'' ! 1,
                     user_pool_id := Some (Split (Id' d) CHR ''/'' ! 0)\<rparr>"
      by (auto simp: resourceAwsCognitoUserPoolClientImport_def Let_def split: if_splits)
    from Split_two_conv [OF l] obtain p c where
      "Id' d = p @ CHR ''/'' # c" "CHR ''/'' \<notin> set p" "CHR ''/'' \<notin> set c"
      "Split (Id' d) CHR ''/'' = [p, c]" by blast
    with n d' show ?thesis by auto
  qed
  have b: "resourceAwsCognitoUserPoolClientImport d = Inr (d\<lparr>Id' := c, user_pool_id := Some p\<rparr>)"
    if "Id' d = p @ CHR ''/'' # c" "p \<noteq> []" "c \<noteq> []" "CHR ''/'' \<notin> set p" "CHR ''/'' \<notin> set c"
    for p c
  proof -
    from that have "Split (Id' d) CHR ''/'' = [p, c]" by (simp add: Split_two)
    moreover from that have "3 \<le> length (Id' d)"
      by (cases p; cases c) simp_all
    ultimately show ?thesis
      by (simp add: resourceAwsCognitoUserPoolClientImport_def)
  qed
  have e: "e = WrongFormat (Id' d)" if "resourceAwsCognitoUserPoolClientImport d = Inl e" for e
    using that by (auto simp: resourceAwsCognitoUserPoolClientImport_def Let_def split: if_splits)
  have ex: "resourceAwsCognitoUserPoolClientImport (blank ''pool123/clientABC'')
       = Inr ((blank ''clientABC'')\<lparr>user_pool_id := Some ''pool123''\<rparr>)"
    "resourceAwsCognitoUserPoolClientImport (blank ''a/b'')
       = Inr ((blank ''b'')\<lparr>user_pool_id := Some ''a''\<rparr>)"
    "resourceAwsCognitoUserPoolClientImport (blank ''pool123'') = Inl (WrongFormat ''pool123'')"
    "resourceAwsCognitoUserPoolClientImport (blank ''a/b/c'') = Inl (WrongFormat ''a/b/c'')"
    by (simp_all add: resourceAwsCognitoUserPoolClientImport_def blank_def)
  from a b e ex show ?thesis by blast
qed

theorem import_parse_witness:
  "resourceAwsCognitoUserPoolClientImport (blank ''pool1/c-1'')
     = Inr ((blank ''c-1'')\<lparr>user_pool_id := Some ''pool1''\<rparr>)"
proof -
  have "Id' (blank ''pool1/c-1'') = ''pool1'' @ CHR ''/'' # ''c-1'' \<and> ''pool1'' \<noteq> [] \<and> ''c-1'' \<noteq> []
         \<and> CHR ''/'' \<notin> set ''pool1'' \<and> CHR ''/'' \<notin> set ''c-1''"
    by (simp add: blank_def)
  with import_parse [of "blank ''pool1/c-1''"] 
  have "resourceAwsCognitoUserPoolClientImport (blank ''pool1/c-1'')
     = Inr ((blank ''pool1/c-1'')\<lparr>Id' := ''c-1'', user_pool_id := Some ''pool1''\<rparr>)"
    by blast
  then show ?thesis by (simp add: blank_def)
qed

text \<open>
  C5 asks the import to fail unless both parts are non-empty. The code tests the number of
  parts and, in place of the two parts, the length of the whole identifier. So \<open>/ab\<close>,
  whose first part is empty, is imported with an empty \<^verbatim>\<open>user_pool_id\<close>, and \<open>ab/\<close>,
  whose second part is empty, with the empty id.
\<close>

theorem import_empty_part:
  "Split ''/ab'' CHR ''/'' = ['''', ''ab'']
   \<and> resourceAwsCognitoUserPoolClientImport (blank ''/ab'')
       = Inr ((blank ''ab'')\<lparr>user_pool_id := Some ''''\<rparr>)
   \<and> Split ''ab/'' CHR ''/'' = [''ab'', '''']
   \<and> resourceAwsCognitoUserPoolClientImport (blank ''ab/'')
       = Inr ((blank '''')\<lparr>user_pool_id := Some ''ab''\<rparr>)"
  by (simp add: resourceAwsCognitoUserPoolClientImport_def blank_def)

theorem import_empty_part_witness:
  "(\<exists>d'. resourceAwsCognitoUserPoolClientImport (blank ''/ab'') = Inr d'
         \<and> user_pool_id d' = Some '''')
   \<and> (\<exists>d'. resourceAwsCognitoUserPoolClientImport (blank ''ab/'') = Inr d' \<and> Id' d' = '''')"
  using import_empty_part by (simp add: blank_def)

section \<open>Read and Delete on a resource that is gone\<close>

lemma isAWSErr_empty_message:
  "isAWSErr err code [] \<longleftrightarrow> (\<exists>m. err = AWSErr code m)"
  by (cases err) (auto simp: isAWSErr_def)

text \<open>
  C3. When the describe call fails with the remote API's error of code
  \<open>ResourceNotFoundException\<close>, whatever its message, Read empties the id and returns no
  error; when it fails with any other error, Read returns that error and leaves the
  resource data as it was.
\<close>

theorem read_not_found:
  assumes "DescribeUserPoolClient conn
             \<lparr>Describe_ClientId = Some (Id' d),
              Describe_UserPoolId = Some (Get_string (user_pool_id d))\<rparr> = Inl err"
  shows "((\<exists>m. err = AWSErr ''ResourceNotFoundException'' m) \<longrightarrow>
            resourceAwsCognitoUserPoolClientRead conn d = (d\<lparr>Id' := []\<rparr>, None))
       \<and> ((\<nexists>m. err = AWSErr ''ResourceNotFoundException'' m) \<longrightarrow>
            resourceAwsCognitoUserPoolClientRead conn d = (d, Some (Propagated err)))"
  using assms
  by (simp add: resourceAwsCognitoUserPoolClientRead_def isAWSErr_empty_message
      ErrCodeResourceNotFoundException_def)

theorem read_not_found_witness:
  "resourceAwsCognitoUserPoolClientRead
     (conn_fail (AWSErr ''ResourceNotFoundException'' ''gone'')) (blank ''c-1'')
     = (blank [], None)
   \<and> resourceAwsCognitoUserPoolClientRead (conn_fail (OtherErr ''timeout'')) (blank ''c-1'')
     = (blank ''c-1'', Some (Propagated (OtherErr ''timeout'')))"
  using read_not_found [of "conn_fail (AWSErr ''ResourceNotFoundException'' ''gone'')"
      "blank ''c-1''" "AWSErr ''ResourceNotFoundException'' ''gone''"]
    read_not_found [of "conn_fail (OtherErr ''timeout'')" "blank ''c-1''" "OtherErr ''timeout''"]
  by (simp add: conn_fail_def blank_def)

text \<open>
  C2 asks Delete to succeed when the delete call reports that the resource is not
  found. Delete returns an error for every failure of the call: with the remote answering
  \<open>ResourceNotFoundException\<close>, as it does to a second delete of the same client, the
  result is the error \<open>Error deleting Cognito User Pool Client\<close>.
\<close>

theorem delete_not_found_is_error:
  "resourceAwsCognitoUserPoolClientDelete
     (conn_fail (AWSErr ''ResourceNotFoundException'' ''gone''))
     ((blank ''c-1'')\<lparr>user_pool_id := Some ''pool1''\<rparr>)
   = ((blank ''c-1'')\<lparr>user_pool_id := Some ''pool1''\<rparr>,
      Some (Errorf ''Error deleting Cognito User Pool Client''
              (AWSErr ''ResourceNotFoundException'' ''gone'')))"
  by (simp add: resourceAwsCognitoUserPoolClientDelete_def conn_fail_def)

section \<open>What the requests carry\<close>

lemma sorted_list_of_fset_single: "sorted_list_of_fset {|x|} = [x]"
  by (simp add: sorted_list_of_fset.rep_eq)

text \<open>
  C9. The create and the update request do not depend on \<^verbatim>\<open>client_secret\<close>: whatever
  the resource data holds there, the request is the same. The attribute is written by
  Read, from the \<^verbatim>\<open>ClientSecret\<close> of the remote's response.
\<close>

theorem secret_confinement:
  assumes "DescribeUserPoolClient conn
             \<lparr>Describe_ClientId = Some (Id' d),
              Describe_UserPoolId = Some (Get_string (user_pool_id d))\<rparr> = Inr resp"
  shows "CreateParams (d\<lparr>client_secret := x\<rparr>) = CreateParams d
       \<and> UpdateParams (d\<lparr>client_secret := x\<rparr>) = UpdateParams d
       \<and> client_secret (fst (resourceAwsCognitoUserPoolClientRead conn d)) = ClientSecret resp"
  using assms
  by (simp add: CreateParams_def UpdateParams_def resourceAwsCognitoUserPoolClientRead_def)

theorem secret_confinement_witness:
  "CreateParams ((blank ''c-1'')\<lparr>client_secret := Some ''sek-1''\<rparr>) = CreateParams (blank ''c-1'')
   \<and> UpdateParams ((blank ''c-1'')\<lparr>client_secret := Some ''sek-1''\<rparr>) = UpdateParams (blank ''c-1'')
   \<and> client_secret (fst (resourceAwsCognitoUserPoolClientRead
        (conn_ok (echo ''c-1'' (CreateParams (blank [])) \<lparr>ClientSecret := Some ''sek-1''\<rparr>))
        (blank ''c-1''))) = Some ''sek-1''"
  using secret_confinement [of "conn_ok (echo ''c-1'' (CreateParams (blank [])) \<lparr>ClientSecret := Some ''sek-1''\<rparr>)"
      "blank ''c-1''" "echo ''c-1'' (CreateParams (blank [])) \<lparr>ClientSecret := Some ''sek-1''\<rparr>" "Some ''sek-1''"]
  by (simp add: conn_ok_def)

text \<open>
  C10. An optional boolean set to \<^verbatim>\<open>false\<close> is left out of the request, as an unset
  one is: the create request for \<^verbatim>\<open>generate_secret\<close> and for
  \<^verbatim>\<open>allowed_oauth_flows_user_pool_client\<close>, and the update request for the latter (the
  update request has no field for the former, and does not depend on it).
\<close>

theorem false_bool_omitted:
  "CreateParams (d\<lparr>generate_secret := Some False\<rparr>) = CreateParams (d\<lparr>generate_secret := None\<rparr>)
   \<and> Create_GenerateSecret (CreateParams (d\<lparr>generate_secret := Some False\<rparr>)) = None
   \<and> UpdateParams (d\<lparr>generate_secret := Some False\<rparr>) = UpdateParams (d\<lparr>generate_secret := None\<rparr>)
   \<and> CreateParams (d\<lparr>allowed_oauth_flows_user_pool_client := Some False\<rparr>)
       = CreateParams (d\<lparr>allowed_oauth_flows_user_pool_client := None\<rparr>)
   \<and> Create_AllowedOAuthFlowsUserPoolClient
         (CreateParams (d\<lparr>allowed_oauth_flows_user_pool_client := Some False\<rparr>)) = None
   \<and> UpdateParams (d\<lparr>allowed_oauth_flows_user_pool_client := Some False\<rparr>)
       = UpdateParams (d\<lparr>allowed_oauth_flows_user_pool_client := None\<rparr>)
   \<and> Update_AllowedOAuthFlowsUserPoolClient
         (UpdateParams (d\<lparr>allowed_oauth_flows_user_pool_client := Some False\<rparr>)) = None"
  by (simp add: CreateParams_def UpdateParams_def GetOk_bool_def)

theorem false_bool_omitted_witness:
  "CreateParams (app1\<lparr>generate_secret := Some False\<rparr>) = CreateParams app1
   \<and> UpdateParams (app1\<lparr>allowed_oauth_flows_user_pool_client := Some False\<rparr>) = UpdateParams app1"
  using false_bool_omitted [of app1]
  by (simp add: app1_def blank_def)

text \<open>
  C8 as stated asks for three states of a set attribute on the wire. The requests have
  two: the create request, and the update request, of a resource data whose
  \<^verbatim>\<open>callback_urls\<close> is the set without elements are those of one where it is not set.
\<close>

theorem empty_set_same_request:
  "CreateParams ((blank [])\<lparr>callback_urls := Some {||}\<rparr>) = CreateParams (blank [])
 \<and> UpdateParams ((blank [])\<lparr>callback_urls := Some {||}\<rparr>) = UpdateParams (blank [])"
  by (simp add: CreateParams_def UpdateParams_def GetOk_set_def blank_def)

text \<open>
  C8, as amended. Each of the eight set attributes is encoded in two ways: a set with at
  least one element is sent as the list of its elements, which is then not empty, and a
  set without elements is left out of the request as an attribute that is not set is. The
  update request encodes each of them as the create request does, and the requests for
  \<^verbatim>\<open>callback_urls\<close> set to the set without elements and for \<^verbatim>\<open>callback_urls\<close> not set
  are equal.
\<close>

theorem set_encoding_two_way:
  "Create_ExplicitAuthFlows (CreateParams d)
     = (case explicit_auth_flows d of None \<Rightarrow> None
        | Some s \<Rightarrow> if s = {||} then None else Some (expandStringSet s))
 \<and> Create_ReadAttributes (CreateParams d)
     = (case read_attributes d of None \<Rightarrow> None
        | Some s \<Rightarrow> if s = {||} then None else Some (expandStringSet s))
 \<and> Create_WriteAttributes (CreateParams d)
     = (case write_attributes d of None \<Rightarrow> None
        | Some s \<Rightarrow> if s = {||} then None else Some (expandStringSet s))
 \<and> Create_AllowedOAuthFlows (CreateParams d)
     = (case allowed_oauth_flows d of None \<Rightarrow> None
        | Some s \<Rightarrow> if s = {||} then None else Some (expandStringSet s))
 \<and> Create_AllowedOAuthScopes (CreateParams d)
     = (case allowed_oauth_scopes d of None \<Rightarrow> None
        | Some s \<Rightarrow> if s = {||} then None else Some (expandStringSet s))
 \<and> Create_CallbackURLs (CreateParams d)
     = (case callback_urls d of None \<Rightarrow> None
        | Some s \<Rightarrow> if s = {||} then None else Some (expandStringSet s))
 \<and> Create_LogoutURLs (CreateParams d)
     = (case logout_urls d of None \<Rightarrow> None
        | Some s \<Rightarrow> if s = {||} then None else Some (expandStringSet s))
 \<and> Create_SupportedIdentityProviders (CreateParams d)
     = (case supported_identity_providers d of None \<Rightarrow> None
        | Some s \<Rightarrow> if s = {||} then None else Some (expandStringSet s))
 \<and> Update_ExplicitAuthFlows (UpdateParams d) = Create_ExplicitAuthFlows (CreateParams d)
 \<and> Update_ReadAttributes (UpdateParams d) = Create_ReadAttributes (CreateParams d)
 \<and> Update_WriteAttributes (UpdateParams d) = Create_WriteAttributes (CreateParams d)
 \<and> Update_AllowedOAuthFlows (UpdateParams d) = Create_AllowedOAuthFlows (CreateParams d)
 \<and> Update_AllowedOAuthScopes (UpdateParams d) = Create_AllowedOAuthScopes (CreateParams d)
 \<and> Update_CallbackURLs (UpdateParams d) = Create_CallbackURLs (CreateParams d)
 \<and> Update_LogoutURLs (UpdateParams d) = Create_LogoutURLs (CreateParams d)
 \<and> Update_SupportedIdentityProviders (UpdateParams d)
     = Create_SupportedIdentityProviders (CreateParams d)
 \<and> CreateParams (d\<lparr>callback_urls := Some {||}\<rparr>) = CreateParams (d\<lparr>callback_urls := None\<rparr>)
 \<and> UpdateParams (d\<lparr>callback_urls := Some {||}\<rparr>) = UpdateParams (d\<lparr>callback_urls := None\<rparr>)
 \<and> (expandStringSet s = []) = (s = {||})"
proof -
  have e: "(expandStringSet s = []) = (s = {||})"
    by (metis expandStringSet_def sorted_list_of_fset_simps(2) fset_of_list_simps(1)
        sorted_list_of_fset_simps(1) bot_fset.rep_eq empty_set set_empty)
  have c: "Create_ExplicitAuthFlows (CreateParams d)
     = (case explicit_auth_flows d of None \<Rightarrow> None
        | Some s \<Rightarrow> if s = {||} then None else Some (expandStringSet s))"
   "Create_ReadAttributes (CreateParams d)
     = (case read_attributes d of None \<Rightarrow> None
        | Some s \<Rightarrow> if s = {||} then None else Some (expandStringSet s))"
   "Create_WriteAttributes (CreateParams d)
     = (case write_attributes d of None \<Rightarrow> None
        | Some s \<Rightarrow> if s = {||} then None else Some (expandStringSet s))"
   "Create_AllowedOAuthFlows (CreateParams d)
     = (case allowed_oauth_flows d of None \<Rightarrow> None
        | Some s \<Rightarrow> if s = {||} then None else Some (expandStringSet s))"
   "Create_AllowedOAuthScopes (CreateParams d)
     = (case allowed_oauth_scopes d of None \<Rightarrow> None
        | Some s \<Rightarrow> if s = {||} then None else Some (expandStringSet s))"
   "Create_CallbackURLs (CreateParams d)
     = (case callback_urls d of None \<Rightarrow> None
        | Some s \<Rightarrow> if s = {||} then None else Some (expandStringSet s))"
   "Create_LogoutURLs (CreateParams d)
     = (case logout_urls d of None \<Rightarrow> None
        | Some s \<Rightarrow> if s = {||} then None else Some (expandStringSet s))"
   "Create_SupportedIdentityProviders (CreateParams d)
     = (case supported_identity_providers d of None \<Rightarrow> None
        | Some s \<Rightarrow> if s = {||} then None else Some (expandStringSet s))"
    by (simp_all add: CreateParams_def GetOk_set_def split: option.splits)
  have u: "Update_ExplicitAuthFlows (UpdateParams d) = Create_ExplicitAuthFlows (CreateParams d)"
   "Update_ReadAttributes (UpdateParams d) = Create_ReadAttributes (CreateParams d)"
   "Update_WriteAttributes (UpdateParams d) = Create_WriteAttributes (CreateParams d)"
   "Update_AllowedOAuthFlows (UpdateParams d) = Create_AllowedOAuthFlows (CreateParams d)"
   "Update_AllowedOAuthScopes (UpdateParams d) = Create_AllowedOAuthScopes (CreateParams d)"
   "Update_CallbackURLs (UpdateParams d) = Create_CallbackURLs (CreateParams d)"
   "Update_LogoutURLs (UpdateParams d) = Create_LogoutURLs (CreateParams d)"
   "Update_SupportedIdentityProviders (UpdateParams d)
     = Create_SupportedIdentityProviders (CreateParams d)"
    by (simp_all add: CreateParams_def UpdateParams_def)
  have w: "CreateParams (d\<lparr>callback_urls := Some {||}\<rparr>) = CreateParams (d\<lparr>callback_urls := None\<rparr>)"
    "UpdateParams (d\<lparr>callback_urls := Some {||}\<rparr>) = UpdateParams (d\<lparr>callback_urls := None\<rparr>)"
    by (simp_all add: CreateParams_def UpdateParams_def GetOk_set_def)
  from e c u w show ?thesis by blast
qed

theorem set_encoding_two_way_witness:
  "Create_CallbackURLs (CreateParams (app1\<lparr>callback_urls := Some {|''https://a''|}\<rparr>))
     = Some [''https://a'']
   \<and> Update_CallbackURLs (UpdateParams (app1\<lparr>callback_urls := Some {|''https://a''|}\<rparr>))
     = Some [''https://a'']
   \<and> Create_CallbackURLs (CreateParams (app1\<lparr>callback_urls := Some {||}\<rparr>)) = None
   \<and> Create_CallbackURLs (CreateParams app1) = None"
  using set_encoding_two_way [of "app1\<lparr>callback_urls := Some {|''https://a''|}\<rparr>"]
    set_encoding_two_way [of "app1\<lparr>callback_urls := Some {||}\<rparr>"]
    set_encoding_two_way [of app1]
  by (simp add: app1_def blank_def expandStringSet_def sorted_list_of_fset_single)

section \<open>Update\<close>

text \<open>
  C6, as amended. The update request carries the id, the user pool id and every settable
  attribute whose value is not the zero value of its type, with that value (a set as the
  list of its elements, the nested block as its expansion), whether or not the value
  changed; an attribute that is not set, or set to the zero value, is left out. When the
  update call succeeds the result of Update is that of Read on the same resource data, so
  a read-back is always performed; when the call fails Update returns the error and reads
  nothing.
\<close>

theorem update_request_and_resync:
  "(case UpdateUserPoolClient conn (UpdateParams d) of
      Inr u \<Rightarrow> resourceAwsCognitoUserPoolClientUpdate conn d
                 = resourceAwsCognitoUserPoolClientRead conn d
    | Inl err \<Rightarrow> resourceAwsCognitoUserPoolClientUpdate conn d
                 = (d, Some (Errorf ''Error updating Cognito User Pool Client'' err)))
 \<and> Update_ClientId (UpdateParams d) = Some (Id' d)
 \<and> Update_UserPoolId (UpdateParams d) = Some (Get_string (user_pool_id d))
 \<and> Update_ClientName (UpdateParams d)
      = (case name d of None \<Rightarrow> None | Some v \<Rightarrow> if v = [] then None else Some v)
 \<and> Update_DefaultRedirectURI (UpdateParams d)
      = (case default_redirect_uri d of None \<Rightarrow> None | Some v \<Rightarrow> if v = [] then None else Some v)
 \<and> Update_PreventUserExistenceErrors (UpdateParams d)
      = (case prevent_user_existence_errors d of None \<Rightarrow> None | Some v \<Rightarrow> if v = [] then None else Some v)
 \<and> Update_ExplicitAuthFlows (UpdateParams d)
      = (case explicit_auth_flows d of None \<Rightarrow> None
         | Some s \<Rightarrow> if s = {||} then None else Some (expandStringSet s))
 \<and> Update_ReadAttributes (UpdateParams d)
      = (case read_attributes d of None \<Rightarrow> None
         | Some s \<Rightarrow> if s = {||} then None else Some (expandStringSet s))
 \<and> Update_WriteAttributes (UpdateParams d)
      = (case write_attributes d of None \<Rightarrow> None
         | Some s \<Rightarrow> if s = {||} then None else Some (expandStringSet s))
 \<and> Update_AllowedOAuthFlows (UpdateParams d)
      = (case allowed_oauth_flows d of None \<Rightarrow> None
         | Some s \<Rightarrow> if s = {||} then None else Some (expandStringSet s))
 \<and> Update_AllowedOAuthScopes (UpdateParams d)
      = (case allowed_oauth_scopes d of None \<Rightarrow> None
         | Some s \<Rightarrow> if s = {||} then None else Some (expandStringSet s))
 \<and> Update_CallbackURLs (UpdateParams d)
      = (case callback_urls d of None \<Rightarrow> None
         | Some s \<Rightarrow> if s = {||} then None else Some (expandStringSet s))
 \<and> Update_LogoutURLs (UpdateParams d)
      = (case logout_urls d of None \<Rightarrow> None
         | Some s \<Rightarrow> if s = {||} then None else Some (expandStringSet s))
 \<and> Update_SupportedIdentityProviders (UpdateParams d)
      = (case supported_identity_providers d of None \<Rightarrow> None
         | Some s \<Rightarrow> if s = {||} then None else Some (expandStringSet s))
 \<and> Update_RefreshTokenValidity (UpdateParams d)
      = (case refresh_token_validity d of None \<Rightarrow> None
         | Some i \<Rightarrow> if i = 0 then None else Some i)
 \<and> Update_AllowedOAuthFlowsUserPoolClient (UpdateParams d)
      = (case allowed_oauth_flows_user_pool_client d of None \<Rightarrow> None
         | Some b \<Rightarrow> if b then Some True else None)
 \<and> Update_AnalyticsConfiguration (UpdateParams d)
      = (case analytics_configuration d of None \<Rightarrow> None
         | Some l \<Rightarrow> expandAwsCognitoUserPoolClientAnalyticsConfig l)
 \<and> (Update_ClientName (UpdateParams d) \<noteq> None) = (Get d attr_name \<noteq> VString [])
 \<and> (Update_DefaultRedirectURI (UpdateParams d) \<noteq> None) = (Get d attr_default_redirect_uri \<noteq> VString [])
 \<and> (Update_PreventUserExistenceErrors (UpdateParams d) \<noteq> None) = (Get d attr_prevent_user_existence_errors \<noteq> VString [])
 \<and> (Update_ExplicitAuthFlows (UpdateParams d) \<noteq> None) = (Get d attr_explicit_auth_flows \<noteq> VSet {||})
 \<and> (Update_ReadAttributes (UpdateParams d) \<noteq> None) = (Get d attr_read_attributes \<noteq> VSet {||})
 \<and> (Update_WriteAttributes (UpdateParams d) \<noteq> None) = (Get d attr_write_attributes \<noteq> VSet {||})
 \<and> (Update_AllowedOAuthFlows (UpdateParams d) \<noteq> None) = (Get d attr_allowed_oauth_flows \<noteq> VSet {||})
 \<and> (Update_AllowedOAuthScopes (UpdateParams d) \<noteq> None) = (Get d attr_allowed_oauth_scopes \<noteq> VSet {||})
 \<and> (Update_CallbackURLs (UpdateParams d) \<noteq> None) = (Get d attr_callback_urls \<noteq> VSet {||})
 \<and> (Update_LogoutURLs (UpdateParams d) \<noteq> None) = (Get d attr_logout_urls \<noteq> VSet {||})
 \<and> (Update_SupportedIdentityProviders (UpdateParams d) \<noteq> None) = (Get d attr_supported_identity_providers \<noteq> VSet {||})
 \<and> (Update_RefreshTokenValidity (UpdateParams d) \<noteq> None)
      = (Get d attr_refresh_token_validity \<noteq> VInt 0)
 \<and> (Update_AllowedOAuthFlowsUserPoolClient (UpdateParams d) \<noteq> None)
      = (Get d attr_allowed_oauth_flows_user_pool_client \<noteq> VBool False)
 \<and> (Update_AnalyticsConfiguration (UpdateParams d) \<noteq> None)
      = (Get d attr_analytics_configuration \<noteq> VList [])"
proof -
  have r: "(case UpdateUserPoolClient conn (UpdateParams d) of
      Inr u \<Rightarrow> resourceAwsCognitoUserPoolClientUpdate conn d
                 = resourceAwsCognitoUserPoolClientRead conn d
    | Inl err \<Rightarrow> resourceAwsCognitoUserPoolClientUpdate conn d
                 = (d, Some (Errorf ''Error updating Cognito User Pool Client'' err)))"
    by (simp add: resourceAwsCognitoUserPoolClientUpdate_def split: sum.splits)
  have i: "Update_ClientId (UpdateParams d) = Some (Id' d)"
    "Update_UserPoolId (UpdateParams d) = Some (Get_string (user_pool_id d))"
    by (simp_all add: UpdateParams_def)
  have v: "Update_ClientName (UpdateParams d)
      = (case name d of None \<Rightarrow> None | Some v \<Rightarrow> if v = [] then None else Some v)"
    "Update_DefaultRedirectURI (UpdateParams d)
      = (case default_redirect_uri d of None \<Rightarrow> None | Some v \<Rightarrow> if v = [] then None else Some v)"
    "Update_PreventUserExistenceErrors (UpdateParams d)
      = (case prevent_user_existence_errors d of None \<Rightarrow> None | Some v \<Rightarrow> if v = [] then None else Some v)"
    "Update_ExplicitAuthFlows (UpdateParams d)
      = (case explicit_auth_flows d of None \<Rightarrow> None
         | Some s \<Rightarrow> if s = {||} then None else Some (expandStringSet s))"
    "Update_ReadAttributes (UpdateParams d)
      = (case read_attributes d of None \<Rightarrow> None
         | Some s \<Rightarrow> if s = {||} then None else Some (expandStringSet s))"
    "Update_WriteAttributes (UpdateParams d)
      = (case write_attributes d of None \<Rightarrow> None
         | Some s \<Rightarrow> if s = {||} then None else Some (expandStringSet s))"
    "Update_AllowedOAuthFlows (UpdateParams d)
      = (case allowed_oauth_flows d of None \<Rightarrow> None
         | Some s \<Rightarrow> if s = {||} then None else Some (expandStringSet s))"
    "Update_AllowedOAuthScopes (UpdateParams d)
      = (case allowed_oauth_scopes d of None \<Rightarrow> None
         | Some s \<Rightarrow> if s = {||} then None else Some (expandStringSet s))"
    "Update_CallbackURLs (UpdateParams d)
      = (case callback_urls d of None \<Rightarrow> None
         | Some s \<Rightarrow> if s = {||} then None else Some (expandStringSet s))"
    "Update_LogoutURLs (UpdateParams d)
      = (case logout_urls d of None \<Rightarrow> None
         | Some s \<Rightarrow> if s = {||} then None else Some (expandStringSet s))"
    "Update_SupportedIdentityProviders (UpdateParams d)
      = (case supported_identity_providers d of None \<Rightarrow> None
         | Some s \<Rightarrow> if s = {||} then None else Some (expandStringSet s))"
    "Update_RefreshTokenValidity (UpdateParams d)
      = (case refresh_token_validity d of None \<Rightarrow> None
         | Some i \<Rightarrow> if i = 0 then None else Some i)"
    "Update_AllowedOAuthFlowsUserPoolClient (UpdateParams d)
      = (case allowed_oauth_flows_user_pool_client d of None \<Rightarrow> None
         | Some b \<Rightarrow> if b then Some True else None)"
    by (simp_all add: UpdateParams_def GetOk_string_def GetOk_set_def GetOk_int_def
        GetOk_bool_def split: option.splits)
  have a: "Update_AnalyticsConfiguration (UpdateParams d)
      = (case analytics_configuration d of None \<Rightarrow> None
         | Some l \<Rightarrow> expandAwsCognitoUserPoolClientAnalyticsConfig l)"
    by (cases "analytics_configuration d")
      (simp_all add: UpdateParams_def GetOk_list_def)
  have p: "(Update_ClientName (UpdateParams d) \<noteq> None) = (Get d attr_name \<noteq> VString [])"
    "(Update_DefaultRedirectURI (UpdateParams d) \<noteq> None) = (Get d attr_default_redirect_uri \<noteq> VString [])"
    "(Update_PreventUserExistenceErrors (UpdateParams d) \<noteq> None) = (Get d attr_prevent_user_existence_errors \<noteq> VString [])"
    "(Update_ExplicitAuthFlows (UpdateParams d) \<noteq> None) = (Get d attr_explicit_auth_flows \<noteq> VSet {||})"
    "(Update_ReadAttributes (UpdateParams d) \<noteq> None) = (Get d attr_read_attributes \<noteq> VSet {||})"
    "(Update_WriteAttributes (UpdateParams d) \<noteq> None) = (Get d attr_write_attributes \<noteq> VSet {||})"
    "(Update_AllowedOAuthFlows (UpdateParams d) \<noteq> None) = (Get d attr_allowed_oauth_flows \<noteq> VSet {||})"
    "(Update_AllowedOAuthScopes (UpdateParams d) \<noteq> None) = (Get d attr_allowed_oauth_scopes \<noteq> VSet {||})"
    "(Update_CallbackURLs (UpdateParams d) \<noteq> None) = (Get d attr_callback_urls \<noteq> VSet {||})"
    "(Update_LogoutURLs (UpdateParams d) \<noteq> None) = (Get d attr_logout_urls \<noteq> VSet {||})"
    "(Update_SupportedIdentityProviders (UpdateParams d) \<noteq> None) = (Get d attr_supported_identity_providers \<noteq> VSet {||})"
    "(Update_RefreshTokenValidity (UpdateParams d) \<noteq> None)
      = (Get d attr_refresh_token_validity \<noteq> VInt 0)"
    "(Update_AllowedOAuthFlowsUserPoolClient (UpdateParams d) \<noteq> None)
      = (Get d attr_allowed_oauth_flows_user_pool_client \<noteq> VBool False)"
    by (simp_all add: UpdateParams_def Get_def Schema0_def GetOk_string_def GetOk_set_def
        GetOk_int_def GetOk_bool_def split: option.splits)
  have q: "(Update_AnalyticsConfiguration (UpdateParams d) \<noteq> None)
      = (Get d attr_analytics_configuration \<noteq> VList [])"
  proof (cases "analytics_configuration d")
    case None
    then show ?thesis by (simp add: UpdateParams_def Get_def GetOk_list_def Schema0_def)
  next
    case (Some l)
    then show ?thesis
      by (cases l) (simp_all add: UpdateParams_def Get_def GetOk_list_def)
  qed
  from r i v a p q show ?thesis by blast
qed

theorem update_request_and_resync_witness:
  "resourceAwsCognitoUserPoolClientUpdate (echo_conn ''c-1'' (CreateParams app1))
       (app1\<lparr>Id' := ''c-1''\<rparr>)
     = resourceAwsCognitoUserPoolClientRead (echo_conn ''c-1'' (CreateParams app1))
         (app1\<lparr>Id' := ''c-1''\<rparr>)
   \<and> resourceAwsCognitoUserPoolClientUpdate (conn_fail (OtherErr ''timeout''))
       (app1\<lparr>Id' := ''c-1''\<rparr>)
     = (app1\<lparr>Id' := ''c-1''\<rparr>,
        Some (Errorf ''Error updating Cognito User Pool Client'' (OtherErr ''timeout'')))
   \<and> Update_ClientId (UpdateParams (app1\<lparr>Id' := ''c-1''\<rparr>)) = Some ''c-1''
   \<and> Update_ClientName (UpdateParams (app1\<lparr>Id' := ''c-1''\<rparr>)) = Some ''app1''
   \<and> Update_CallbackURLs (UpdateParams (app1\<lparr>Id' := ''c-1''\<rparr>)) = None
   \<and> Update_CallbackURLs
        (UpdateParams (app1\<lparr>Id' := ''c-1'', callback_urls := Some {|''https://a''|}\<rparr>))
     = Some [''https://a'']
   \<and> Update_RefreshTokenValidity
        (UpdateParams (app1\<lparr>Id' := ''c-1'', refresh_token_validity := Some 30\<rparr>)) = Some 30"
  using update_request_and_resync [of "echo_conn ''c-1'' (CreateParams app1)" "app1\<lparr>Id' := ''c-1''\<rparr>"]
    update_request_and_resync [of "conn_fail (OtherErr ''timeout'')" "app1\<lparr>Id' := ''c-1''\<rparr>"]
    update_request_and_resync [of "conn_fail (OtherErr ''timeout'')"
      "app1\<lparr>Id' := ''c-1'', callback_urls := Some {|''https://a''|}\<rparr>"]
    update_request_and_resync [of "conn_fail (OtherErr ''timeout'')"
      "app1\<lparr>Id' := ''c-1'', refresh_token_validity := Some 30\<rparr>"]
  by (simp add: echo_conn_def conn_fail_def app1_def blank_def Get_def Schema0_def
      expandStringSet_def sorted_list_of_fset_single)

text \<open>
  C6 as stated asks the update request to leave out an attribute whose value equals the
  last observed one. After a create and its read-back against the echoing remote the
  observed name is \<open>app1\<close>; the update request built from that very resource data, with
  nothing changed, carries the name.
\<close>

theorem update_sends_unchanged:
  "Update_ClientName (UpdateParams (fst (resourceAwsCognitoUserPoolClientCreate
      (echo_conn ''c-1'' (CreateParams app1)) app1))) = Some ''app1''
 \<and> name (fst (resourceAwsCognitoUserPoolClientCreate
      (echo_conn ''c-1'' (CreateParams app1)) app1)) = Some ''app1''"
  by (simp add: app1_def blank_def
      resourceAwsCognitoUserPoolClientCreate_def resourceAwsCognitoUserPoolClientRead_def
      echo_conn_def echo_def CreateParams_def UpdateParams_def GetOk_string_def Get_string_def)

section \<open>Round trip\<close>

lemma validate_attr_nil: "validate V s = [] \<Longrightarrow> a \<in> set attrs \<Longrightarrow> validate_attr V s a = []"
  by (auto simp: validate_def)

lemma valid_analytics:
  assumes "validate V s = []" "analytics_configuration s = Some l"
  shows "length l = 1"
proof -
  have "validate_attr V s attr_analytics_configuration = []"
    using assms(1) by (rule validate_attr_nil) (simp add: attrs_def)
  with assms(2) show ?thesis
    by (cases l) (auto simp: validate_attr_def Schema0_def split: if_splits)
qed

lemma set_round_trip:
  "flattenStringSet (case GetOk_set v of Some x \<Rightarrow> Some (expandStringSet x) | None \<Rightarrow> None)
     = (case v of None \<Rightarrow> {||} | Some x \<Rightarrow> x)"
  by (simp add: flattenStringSet_def GetOk_set_def expandStringSet_def split: option.splits)

lemma getok_simps:
  "(case GetOk_string v of Some x \<Rightarrow> Some x | None \<Rightarrow> None) = GetOk_string v"
  "(case GetOk_bool b of Some x \<Rightarrow> Some x | None \<Rightarrow> None) = GetOk_bool b"
  "(case GetOk_int i of Some x \<Rightarrow> Some x | None \<Rightarrow> None) = GetOk_int i"
  by (simp_all split: option.splits)

lemma flattenStringSet_cong:
  "map_option set a = map_option set b \<Longrightarrow> flattenStringSet a = flattenStringSet b"
  by (cases a; cases b) (auto simp: flattenStringSet_def fset_of_list.rep_eq intro: fset_eqI)

lemma set_echo:
  assumes "map_option set got
    = map_option set (case GetOk_set v of Some x \<Rightarrow> Some (expandStringSet x) | None \<Rightarrow> None)"
  shows "flattenStringSet got = (case v of None \<Rightarrow> {||} | Some x \<Rightarrow> x)"
  using flattenStringSet_cong [OF assms] by (simp add: set_round_trip)

text \<open>
  C1, as amended. Let \<open>s\<close> be a resource data that the Validator accepts and \<open>r\<close> a
  response that echoes the create request of \<open>s\<close>. Read, decoding \<open>r\<close> into any resource
  data \<open>d0\<close>, succeeds and sets the id to the client id of \<open>r\<close>. Afterwards every attribute
  that is not Computed reads, through \<^verbatim>\<open>d.Get\<close>, as it does in \<open>s\<close>, but for
  \<^verbatim>\<open>generate_secret\<close>: the response has no such field and Read leaves the attribute as
  \<open>d0\<close> had it. The Computed attributes hold what the response carries, no more:
  \<^verbatim>\<open>client_secret\<close> its \<^verbatim>\<open>ClientSecret\<close>, \<^verbatim>\<open>prevent_user_existence_errors\<close> its
  \<^verbatim>\<open>PreventUserExistenceErrors\<close> (the value of \<open>s\<close> when \<open>s\<close> set one), the nested
  \<^verbatim>\<open>role_arn\<close> its \<^verbatim>\<open>RoleArn\<close> (again the value of \<open>s\<close> when \<open>s\<close> set one).
\<close>

theorem decode_round_trip:
  assumes v: "validate V s = []"
    and e: "echoes (CreateParams s) r"
    and c: "DescribeUserPoolClient conn
              \<lparr>Describe_ClientId = Some (Id' d0),
               Describe_UserPoolId = Some (Get_string (user_pool_id d0))\<rparr> = Inr r"
  shows "(case resourceAwsCognitoUserPoolClientRead conn d0 of
          (d', err) \<Rightarrow>
            err = None \<and> Id' d' = StringValue (ClientId r)
          \<and> (\<forall>a. a \<noteq> attr_client_secret \<and> a \<noteq> attr_generate_secret
                 \<and> a \<noteq> attr_prevent_user_existence_errors
                 \<and> a \<noteq> attr_analytics_configuration
                 \<longrightarrow> Get d' a = Get s a)
          \<and> map block_settable (Get_list (analytics_configuration d'))
              = map block_settable (Get_list (analytics_configuration s))
          \<and> generate_secret d' = generate_secret d0
          \<and> client_secret d' = ClientSecret r
          \<and> prevent_user_existence_errors d' = PreventUserExistenceErrors r
          \<and> (Get s attr_prevent_user_existence_errors \<noteq> VString []
               \<longrightarrow> Get d' attr_prevent_user_existence_errors
                     = Get s attr_prevent_user_existence_errors)
          \<and> map role_arn (Get_list (analytics_configuration d'))
              = (case AnalyticsConfiguration r of None \<Rightarrow> [] | Some c \<Rightarrow> [RoleArn c])
          \<and> (\<forall>m \<in> set (Get_list (analytics_configuration s)).
                Get_string (role_arn m) \<noteq> []
                \<longrightarrow> map block_Get (Get_list (analytics_configuration d')) = [block_Get m]))"
proof -
  let ?p = "CreateParams s"
  define d' where "d' = fst (resourceAwsCognitoUserPoolClientRead conn d0)"
  have R: "resourceAwsCognitoUserPoolClientRead conn d0 = (d', None)"
    using c by (simp add: d'_def resourceAwsCognitoUserPoolClientRead_def)
  have f: "Id' d' = StringValue (ClientId r)"
    "user_pool_id d' = UserPoolId r" "name d' = ClientName r"
    "explicit_auth_flows d' = Some (flattenStringSet (ExplicitAuthFlows r))"
    "read_attributes d' = Some (flattenStringSet (ReadAttributes r))"
    "write_attributes d' = Some (flattenStringSet (WriteAttributes r))"
    "refresh_token_validity d' = RefreshTokenValidity r"
    "client_secret d' = ClientSecret r"
    "allowed_oauth_flows d' = Some (flattenStringSet (AllowedOAuthFlows r))"
    "allowed_oauth_flows_user_pool_client d' = AllowedOAuthFlowsUserPoolClient r"
    "allowed_oauth_scopes d' = Some (flattenStringSet (AllowedOAuthScopes r))"
    "callback_urls d' = Some (flattenStringSet (CallbackURLs r))"
    "default_redirect_uri d' = DefaultRedirectURI r"
    "logout_urls d' = Some (flattenStringSet (LogoutURLs r))"
    "prevent_user_existence_errors d' = PreventUserExistenceErrors r"
    "supported_identity_providers d' = Some (flattenStringSet (SupportedIdentityProviders r))"
    "analytics_configuration d'
       = Some (flattenAwsCognitoUserPoolClientAnalyticsConfig (AnalyticsConfiguration r))"
    "generate_secret d' = generate_secret d0"
    using c by (simp_all add: d'_def resourceAwsCognitoUserPoolClientRead_def)
  from e have s1: "UserPoolId r = Some (Get_string (user_pool_id s))"
    "ClientName r = Some (Get_string (name s))"
    "RefreshTokenValidity r = GetOk_int (refresh_token_validity s)"
    "AllowedOAuthFlowsUserPoolClient r = GetOk_bool (allowed_oauth_flows_user_pool_client s)"
    "DefaultRedirectURI r = GetOk_string (default_redirect_uri s)"
    by (simp_all add: echoes_def CreateParams_def getok_simps)
  from e have s2: "flattenStringSet (ExplicitAuthFlows r)
      = (case explicit_auth_flows s of None \<Rightarrow> {||} | Some x \<Rightarrow> x)"
    "flattenStringSet (ReadAttributes r) = (case read_attributes s of None \<Rightarrow> {||} | Some x \<Rightarrow> x)"
    "flattenStringSet (WriteAttributes r)
      = (case write_attributes s of None \<Rightarrow> {||} | Some x \<Rightarrow> x)"
    "flattenStringSet (AllowedOAuthFlows r)
      = (case allowed_oauth_flows s of None \<Rightarrow> {||} | Some x \<Rightarrow> x)"
    "flattenStringSet (AllowedOAuthScopes r)
      = (case allowed_oauth_scopes s of None \<Rightarrow> {||} | Some x \<Rightarrow> x)"
    "flattenStringSet (CallbackURLs r) = (case callback_urls s of None \<Rightarrow> {||} | Some x \<Rightarrow> x)"
    "flattenStringSet (LogoutURLs r) = (case logout_urls s of None \<Rightarrow> {||} | Some x \<Rightarrow> x)"
    "flattenStringSet (SupportedIdentityProviders r)
      = (case supported_identity_providers s of None \<Rightarrow> {||} | Some x \<Rightarrow> x)"
    by (simp_all add: echoes_def CreateParams_def set_echo)
  have a: "Get d' a = Get s a"
    if "a \<noteq> attr_client_secret \<and> a \<noteq> attr_generate_secret
        \<and> a \<noteq> attr_prevent_user_existence_errors \<and> a \<noteq> attr_analytics_configuration" for a
    using that
    by (cases a)
      (simp_all add: f s1 s2 Get_def Schema0_def Get_string_def GetOk_string_def
        GetOk_bool_def GetOk_int_def split: option.splits)
  from e have p1: "PreventUserExistenceErrors r = GetOk_string (prevent_user_existence_errors s)"
    if "GetOk_string (prevent_user_existence_errors s) \<noteq> None"
    using that by (simp add: echoes_def CreateParams_def getok_simps)
  have p: "Get d' attr_prevent_user_existence_errors = Get s attr_prevent_user_existence_errors"
    if "Get s attr_prevent_user_existence_errors \<noteq> VString []"
  proof -
    from that have "GetOk_string (prevent_user_existence_errors s) \<noteq> None"
      by (simp add: Get_def Schema0_def GetOk_string_def split: option.splits)
    from p1 [OF this] show ?thesis
      by (simp add: f Get_def Schema0_def GetOk_string_def split: option.splits if_splits)
  qed
  from e have an: "echoes_analytics
      (case GetOk_list (analytics_configuration s) of
         Some v \<Rightarrow> expandAwsCognitoUserPoolClientAnalyticsConfig v | None \<Rightarrow> None)
      (AnalyticsConfiguration r)"
    by (simp add: echoes_def CreateParams_def)
  have ro: "map role_arn (Get_list (analytics_configuration d'))
      = (case AnalyticsConfiguration r of None \<Rightarrow> [] | Some c \<Rightarrow> [RoleArn c])"
    by (cases "AnalyticsConfiguration r")
      (simp_all add: f Get_list_def StringValue_def split: option.splits)
  have b: "map block_settable (Get_list (analytics_configuration d'))
        = map block_settable (Get_list (analytics_configuration s))
      \<and> (\<forall>m \<in> set (Get_list (analytics_configuration s)).
            Get_string (role_arn m) \<noteq> []
            \<longrightarrow> map block_Get (Get_list (analytics_configuration d')) = [block_Get m])"
  proof (cases "analytics_configuration s")
    case None
    with an show ?thesis
      by (simp add: f Get_list_def GetOk_list_def echoes_analytics_def)
  next
    case (Some l)
    with v have "length l = 1" by (rule valid_analytics)
    then obtain m where l: "l = [m]" by (cases l) auto
    from an Some l obtain c' where c': "AnalyticsConfiguration r = Some c'"
      and q: "ApplicationArn c' = GetOk_string (application_arn m)"
        "ApplicationId c' = GetOk_string (application_id m)"
        "ExternalId c' = GetOk_string (external_id m)"
        "UserDataShared c' = user_data_shared m"
        "GetOk_string (role_arn m) \<noteq> None \<longrightarrow> RoleArn c' = GetOk_string (role_arn m)"
      by (auto simp: GetOk_list_def echoes_analytics_def GetOk_string_def
          split: option.splits if_splits)
    have g: "Get_list (analytics_configuration d')
        = flattenAwsCognitoUserPoolClientAnalyticsConfig (Some c')"
      by (simp add: f c' Get_list_def)
    have 1: "map block_settable (Get_list (analytics_configuration d')) = [block_settable m]"
      unfolding g
      by (simp add: block_settable_def q Get_string_def GetOk_string_def StringValue_def
          BoolValue_def split: option.splits)
    have 2: "map block_Get (Get_list (analytics_configuration d')) = [block_Get m]"
      if "Get_string (role_arn m) \<noteq> []"
    proof -
      from that have "GetOk_string (role_arn m) \<noteq> None"
        by (simp add: Get_string_def GetOk_string_def split: option.splits)
      with q(5) have "RoleArn c' = GetOk_string (role_arn m)" by simp
      then show ?thesis
        unfolding g
        by (simp add: block_Get_def q Get_string_def GetOk_string_def StringValue_def
            BoolValue_def split: option.splits)
    qed
    from 1 2 Some l show ?thesis by (simp add: Get_list_def)
  qed
  from a b p ro f(1,8,15,18) show ?thesis
    unfolding R by simp
qed

theorem decode_round_trip_witness:
  "validate validators0 app1_secret = []
   \<and> echoes (CreateParams app1_secret) resp1
   \<and> resourceAwsCognitoUserPoolClientCreate (conn_ok resp1) app1_secret
     = (app1_secret\<lparr>Id' := ''c-1'', client_secret := Some ''sek-1'',
          prevent_user_existence_errors := Some ''ENABLED'',
          explicit_auth_flows := Some {||}, read_attributes := Some {||},
          write_attributes := Some {||}, allowed_oauth_flows := Some {||},
          allowed_oauth_scopes := Some {||}, callback_urls := Some {||},
          logout_urls := Some {||}, supported_identity_providers := Some {||},
          analytics_configuration := Some []\<rparr>, None)"
proof -
  have h: "validate validators0 app1_secret = []"
    by (simp add: validate_def attrs_def validate_attr_def app1_secret_def app1_def blank_def
        Schema0_def)
  have k: "echoes (CreateParams app1_secret) resp1"
    by (simp add: echoes_def echoes_analytics_def resp1_def echo_def CreateParams_def
        app1_secret_def app1_def blank_def GetOk_string_def GetOk_list_def)
  have c: "DescribeUserPoolClient (conn_ok resp1)
      \<lparr>Describe_ClientId = Some (Id' (app1_secret\<lparr>Id' := ''c-1''\<rparr>)),
       Describe_UserPoolId = Some (Get_string (user_pool_id (app1_secret\<lparr>Id' := ''c-1''\<rparr>)))\<rparr>
      = Inr resp1"
    by (simp add: conn_ok_def)
  from decode_round_trip [OF h k c] h k show ?thesis
    by (simp add: app1_secret_def app1_def blank_def resp1_def conn_ok_def
      resourceAwsCognitoUserPoolClientCreate_def resourceAwsCognitoUserPoolClientRead_def
      echo_def CreateParams_def GetOk_string_def StringValue_def Get_string_def
      GetOk_set_def GetOk_bool_def GetOk_int_def GetOk_list_def flattenStringSet_def)
qed

text \<open>
  C1 as stated asks the decoded state to equal \<open>s\<close> on every attribute that is not
  Computed. In the spec's scenario the response echoes the request and carries a secret, so
  the Computed attributes are populated; Read, decoding it into a resource data that holds
  the identity only, leaves \<^verbatim>\<open>generate_secret\<close> unset, where the configuration has it
  set.
\<close>

theorem round_trip_generate_secret_lost:
  "validate validators0 app1_secret = []
   \<and> echoes (CreateParams app1_secret) resp1
   \<and> client_secret (fst (resourceAwsCognitoUserPoolClientRead (conn_ok resp1)
        ((blank ''c-1'')\<lparr>user_pool_id := Some ''pool1''\<rparr>))) = Some ''sek-1''
   \<and> generate_secret (fst (resourceAwsCognitoUserPoolClientRead (conn_ok resp1)
        ((blank ''c-1'')\<lparr>user_pool_id := Some ''pool1''\<rparr>))) = None
   \<and> Get (fst (resourceAwsCognitoUserPoolClientRead (conn_ok resp1)
        ((blank ''c-1'')\<lparr>user_pool_id := Some ''pool1''\<rparr>))) attr_generate_secret = VBool False
   \<and> Get app1_secret attr_generate_secret = VBool True"
  by (simp add: validate_def attrs_def validate_attr_def app1_secret_def app1_def blank_def
      Schema0_def echoes_def echoes_analytics_def resp1_def echo_def conn_ok_def
      resourceAwsCognitoUserPoolClientRead_def CreateParams_def Get_def
      GetOk_string_def GetOk_set_def GetOk_bool_def GetOk_int_def GetOk_list_def)

section \<open>Replace classification\<close>

lemma in_attrs: "a \<in> set attrs"
  by (cases a) (simp_all add: attrs_def)

text \<open>
  C4. Any change of \<^verbatim>\<open>user_pool_id\<close> or of \<^verbatim>\<open>generate_secret\<close>, also one between an
  unset value and the zero value, classifies as Replace and makes Replace the verb for the
  resource, since the schema declares both \<^verbatim>\<open>ForceNew\<close>. When any attribute classifies
  as Replace the verb is Replace, not Update, however the other attributes classify. The
  two attributes are the only ones the schema declares \<^verbatim>\<open>ForceNew\<close>: an attribute
  classifies as Replace exactly when it is one of them and changed, and the verb is
  Replace exactly when one of them changed.
\<close>

theorem replace_classification:
  "(user_pool_id old \<noteq> user_pool_id new
      \<longrightarrow> classify old new attr_user_pool_id = Replace \<and> chosen_verb old new = VerbReplace)
 \<and> (generate_secret old \<noteq> generate_secret new
      \<longrightarrow> classify old new attr_generate_secret = Replace \<and> chosen_verb old new = VerbReplace)
 \<and> (classify old new a = Replace
      \<longrightarrow> chosen_verb old new = VerbReplace \<and> chosen_verb old new \<noteq> VerbUpdate)
 \<and> (classify old new a = Replace) =
      ((a = attr_user_pool_id \<or> a = attr_generate_secret)
        \<and> attr_value old a \<noteq> attr_value new a)
 \<and> (chosen_verb old new = VerbReplace) =
      (user_pool_id old \<noteq> user_pool_id new \<or> generate_secret old \<noteq> generate_secret new)"
proof -
  have c: "(classify old new b = Replace) =
      ((b = attr_user_pool_id \<or> b = attr_generate_secret)
        \<and> attr_value old b \<noteq> attr_value new b)" for b
    by (cases b) (simp_all add: classify_def Schema0_def Let_def)
  have v: "(chosen_verb old new = VerbReplace) = (\<exists>b. classify old new b = Replace)"
    using in_attrs by (auto simp: chosen_verb_def list_ex_iff)
  have u: "(attr_value old attr_user_pool_id \<noteq> attr_value new attr_user_pool_id)
      = (user_pool_id old \<noteq> user_pool_id new)"
    by (cases "user_pool_id old"; cases "user_pool_id new") simp_all
  have g: "(attr_value old attr_generate_secret \<noteq> attr_value new attr_generate_secret)
      = (generate_secret old \<noteq> generate_secret new)"
    by (cases "generate_secret old"; cases "generate_secret new") simp_all
  have r: "(chosen_verb old new = VerbReplace) =
      (user_pool_id old \<noteq> user_pool_id new \<or> generate_secret old \<noteq> generate_secret new)"
    unfolding v c using u g by blast
  have k: "classify old new attr_user_pool_id = Replace" if "user_pool_id old \<noteq> user_pool_id new"
    using that u c [of attr_user_pool_id] by simp
  have l: "classify old new attr_generate_secret = Replace"
    if "generate_secret old \<noteq> generate_secret new"
    using that g c [of attr_generate_secret] by simp
  have n: "chosen_verb old new = VerbReplace \<and> chosen_verb old new \<noteq> VerbUpdate"
    if "classify old new a = Replace"
    using that v by auto
  from c [of a] r k l n show ?thesis by blast
qed

theorem replace_classification_witness:
  "classify app1 (app1\<lparr>user_pool_id := Some ''pool2'', name := Some ''app2''\<rparr>) attr_user_pool_id
     = Replace
 \<and> classify app1 (app1\<lparr>generate_secret := Some True\<rparr>) attr_generate_secret = Replace
 \<and> classify app1 (app1\<lparr>generate_secret := Some False\<rparr>) attr_generate_secret = Replace
 \<and> chosen_verb app1 (app1\<lparr>generate_secret := Some False\<rparr>) = VerbReplace
 \<and> classify app1 (app1\<lparr>user_pool_id := Some ''pool2'', name := Some ''app2''\<rparr>) attr_name
     = Update
 \<and> chosen_verb app1 (app1\<lparr>user_pool_id := Some ''pool2'', name := Some ''app2''\<rparr>)
     = VerbReplace
 \<and> chosen_verb app1 (app1\<lparr>name := Some ''app2''\<rparr>) = VerbUpdate"
proof -
  have n: "classify app1 (app1\<lparr>user_pool_id := Some ''pool2'', name := Some ''app2''\<rparr>) attr_name
     = Update"
    by (simp add: app1_def blank_def Schema0_def classify_def)
  have u: "chosen_verb app1 (app1\<lparr>name := Some ''app2''\<rparr>) = VerbUpdate"
    by (simp add: app1_def blank_def Schema0_def classify_def chosen_verb_def attrs_def)
  from replace_classification
      [of app1 "app1\<lparr>user_pool_id := Some ''pool2'', name := Some ''app2''\<rparr>" attr_user_pool_id]
    replace_classification [of app1 "app1\<lparr>generate_secret := Some True\<rparr>" attr_generate_secret]
    replace_classification [of app1 "app1\<lparr>generate_secret := Some False\<rparr>" attr_generate_secret]
    n u
  show ?thesis by (simp add: app1_def blank_def)
qed

section \<open>Validation of the enumerations\<close>

lemma violation_in_validate:
  "v \<in> set (validate_attr V d a) \<Longrightarrow> v \<in> set (validate V d)"
  using in_attrs [of a] by (auto simp: validate_def)

lemma validated_Inl: "v \<in> set (validate V d) \<Longrightarrow> validated V f d = Inl (validate V d)"
  by (cases "validate V d") (auto simp: validated_def)
lemma validate_scopes_any:
  "fcard xs \<le> 50 \<Longrightarrow>
     validate V (d\<lparr>allowed_oauth_scopes := Some xs\<rparr>) = validate V (d\<lparr>allowed_oauth_scopes := None\<rparr>)"
  by (simp add: validate_def attrs_def validate_attr_def Schema0_def)

text \<open>
  C7, as amended. An element of \<^verbatim>\<open>allowed_oauth_flows\<close> or of \<^verbatim>\<open>explicit_auth_flows\<close>
  that is not among the allowed values of that attribute is reported by the Validator as a
  violation, and the resource data then reaches no function of the resource, whatever the
  connection: the result is the list of violations. The elements of
  \<^verbatim>\<open>allowed_oauth_scopes\<close> are checked against no set of values. The only violation the
  attribute can give is that of more than 50 elements; a set of at most 50 scopes,
  whatever its elements, validates as the unset attribute does, and reaches the function
  of the resource when nothing else is in violation.
\<close>

theorem enum_validation:
  "(\<forall>x xs. x |\<in>| xs \<and> allowed_oauth_flows d = Some xs \<and> x \<notin> set (OAuthFlowType_Values V)
      \<longrightarrow> NotInSlice attr_allowed_oauth_flows x \<in> set (validate V d)
          \<and> validated V f d = Inl (validate V d))
 \<and> (\<forall>x xs. x |\<in>| xs \<and> explicit_auth_flows d = Some xs
        \<and> x \<notin> set (ExplicitAuthFlowsType_Values V)
      \<longrightarrow> NotInSlice attr_explicit_auth_flows x \<in> set (validate V d)
          \<and> validated V f d = Inl (validate V d))
 \<and> validate_attr V d attr_allowed_oauth_scopes
      = (case allowed_oauth_scopes d of None \<Rightarrow> []
         | Some xs \<Rightarrow> if 50 < fcard xs
                     then [TooManyItems attr_allowed_oauth_scopes (fcard xs)] else [])
 \<and> (\<forall>xs. fcard xs \<le> 50 \<longrightarrow>
       validate V (d\<lparr>allowed_oauth_scopes := Some xs\<rparr>)
         = validate V (d\<lparr>allowed_oauth_scopes := None\<rparr>))
 \<and> (\<forall>xs. fcard xs \<le> 50 \<and> validate V (d\<lparr>allowed_oauth_scopes := None\<rparr>) = [] \<longrightarrow>
       validated V f (d\<lparr>allowed_oauth_scopes := Some xs\<rparr>)
         = Inr (f (d\<lparr>allowed_oauth_scopes := Some xs\<rparr>)))
 \<and> (\<forall>xs. 50 < fcard xs \<longrightarrow>
       TooManyItems attr_allowed_oauth_scopes (fcard xs)
         \<in> set (validate V (d\<lparr>allowed_oauth_scopes := Some xs\<rparr>))
       \<and> validated V f (d\<lparr>allowed_oauth_scopes := Some xs\<rparr>)
         = Inl (validate V (d\<lparr>allowed_oauth_scopes := Some xs\<rparr>)))"
proof -
  have o: "NotInSlice attr_allowed_oauth_flows x \<in> set (validate V d)
          \<and> validated V f d = Inl (validate V d)"
    if "x |\<in>| xs" "allowed_oauth_flows d = Some xs" "x \<notin> set (OAuthFlowType_Values V)"
    for x xs
  proof -
    from that have "NotInSlice attr_allowed_oauth_flows x
        \<in> set (validate_attr V d attr_allowed_oauth_flows)"
      by (auto simp: validate_attr_def Schema0_def)
    then have "NotInSlice attr_allowed_oauth_flows x \<in> set (validate V d)"
      by (rule violation_in_validate)
    then show ?thesis by (simp add: validated_Inl)
  qed
  have e: "NotInSlice attr_explicit_auth_flows x \<in> set (validate V d)
          \<and> validated V f d = Inl (validate V d)"
    if "x |\<in>| xs" "explicit_auth_flows d = Some xs" "x \<notin> set (ExplicitAuthFlowsType_Values V)"
    for x xs
  proof -
    from that have "NotInSlice attr_explicit_auth_flows x
        \<in> set (validate_attr V d attr_explicit_auth_flows)"
      by (auto simp: validate_attr_def Schema0_def)
    then have "NotInSlice attr_explicit_auth_flows x \<in> set (validate V d)"
      by (rule violation_in_validate)
    then show ?thesis by (simp add: validated_Inl)
  qed
  have s: "validate_attr V d attr_allowed_oauth_scopes
      = (case allowed_oauth_scopes d of None \<Rightarrow> []
         | Some xs \<Rightarrow> if 50 < fcard xs
                     then [TooManyItems attr_allowed_oauth_scopes (fcard xs)] else [])"
    by (simp add: validate_attr_def Schema0_def split: option.splits)
  have a: "validate V (d\<lparr>allowed_oauth_scopes := Some xs\<rparr>)
         = validate V (d\<lparr>allowed_oauth_scopes := None\<rparr>)" if "fcard xs \<le> 50" for xs
    using that by (rule validate_scopes_any)
  have r: "validated V f (d\<lparr>allowed_oauth_scopes := Some xs\<rparr>)
         = Inr (f (d\<lparr>allowed_oauth_scopes := Some xs\<rparr>))"
    if "fcard xs \<le> 50" "validate V (d\<lparr>allowed_oauth_scopes := None\<rparr>) = []" for xs
    using that a [of xs] by (simp add: validated_def)
  have t: "TooManyItems attr_allowed_oauth_scopes (fcard xs)
         \<in> set (validate V (d\<lparr>allowed_oauth_scopes := Some xs\<rparr>))
       \<and> validated V f (d\<lparr>allowed_oauth_scopes := Some xs\<rparr>)
         = Inl (validate V (d\<lparr>allowed_oauth_scopes := Some xs\<rparr>))" if "50 < fcard xs" for xs
  proof -
    from that have "TooManyItems attr_allowed_oauth_scopes (fcard xs)
        \<in> set (validate_attr V (d\<lparr>allowed_oauth_scopes := Some xs\<rparr>) attr_allowed_oauth_scopes)"
      by (simp add: validate_attr_def Schema0_def)
    then have "TooManyItems attr_allowed_oauth_scopes (fcard xs)
        \<in> set (validate V (d\<lparr>allowed_oauth_scopes := Some xs\<rparr>))"
      by (rule violation_in_validate)
    then show ?thesis by (simp add: validated_Inl)
  qed
  from o e s a r t show ?thesis by blast
qed

theorem enum_validation_witness:
  "validate validators0 (app1\<lparr>allowed_oauth_flows := Some {|''bogus''|}\<rparr>)
     = [NotInSlice attr_allowed_oauth_flows ''bogus'']
   \<and> validated validators0 (resourceAwsCognitoUserPoolClientCreate (conn_fail (OtherErr [])))
       (app1\<lparr>allowed_oauth_flows := Some {|''bogus''|}\<rparr>)
     = Inl [NotInSlice attr_allowed_oauth_flows ''bogus'']
   \<and> validate validators0 (app1\<lparr>explicit_auth_flows := Some {|''bogus''|}\<rparr>)
     = [NotInSlice attr_explicit_auth_flows ''bogus'']
   \<and> validated validators0 (resourceAwsCognitoUserPoolClientCreate (conn_fail (OtherErr [])))
       (app1\<lparr>allowed_oauth_scopes := Some {|''bogus''|}\<rparr>)
     = Inr (resourceAwsCognitoUserPoolClientCreate (conn_fail (OtherErr []))
         (app1\<lparr>allowed_oauth_scopes := Some {|''bogus''|}\<rparr>))"
proof -
  let ?f = "resourceAwsCognitoUserPoolClientCreate (conn_fail (OtherErr []))"
  have v: "validate validators0 (app1\<lparr>allowed_oauth_flows := Some {|''bogus''|}\<rparr>)
     = [NotInSlice attr_allowed_oauth_flows ''bogus'']"
   "validate validators0 (app1\<lparr>explicit_auth_flows := Some {|''bogus''|}\<rparr>)
     = [NotInSlice attr_explicit_auth_flows ''bogus'']"
   "validate validators0 (app1\<lparr>allowed_oauth_scopes := None\<rparr>) = []"
    by (simp_all add: validate_def attrs_def validate_attr_def app1_def blank_def Schema0_def
        fcard_finsert_if fcard_fempty validators0_def sorted_list_of_fset_single)
  have h: "''bogus'' |\<in>| {|''bogus''|}
      \<and> allowed_oauth_flows (app1\<lparr>allowed_oauth_flows := Some {|''bogus''|}\<rparr>)
          = Some {|''bogus''|}
      \<and> ''bogus'' \<notin> set (OAuthFlowType_Values validators0)"
    by (simp add: validators0_def)
  have c: "fcard {|''bogus''|} \<le> 50" by (simp add: fcard_finsert_if fcard_fempty)
  from enum_validation [of "app1\<lparr>allowed_oauth_flows := Some {|''bogus''|}\<rparr>" validators0 ?f] h
  have "validated validators0 ?f (app1\<lparr>allowed_oauth_flows := Some {|''bogus''|}\<rparr>)
     = Inl (validate validators0 (app1\<lparr>allowed_oauth_flows := Some {|''bogus''|}\<rparr>))"
    by blast
  moreover from enum_validation [of app1 validators0 ?f] c v(3)
  have "validated validators0 ?f (app1\<lparr>allowed_oauth_scopes := Some {|''bogus''|}\<rparr>)
     = Inr (?f (app1\<lparr>allowed_oauth_scopes := Some {|''bogus''|}\<rparr>))"
    by blast
  ultimately show ?thesis using v by simp
qed

text \<open>
  C7 as stated asks the same of \<^verbatim>\<open>allowed_oauth_scopes\<close>. Its schema entry has no
  \<^verbatim>\<open>ValidateFunc\<close>: a resource data whose only scope is \<open>bogus\<close>, which is none of the
  reserved scopes the schema's comment lists, has no violation.
\<close>

theorem scopes_not_validated:
  "validate validators0 (app1\<lparr>allowed_oauth_scopes := Some {|''bogus''|}\<rparr>) = []"
  by (simp add: validate_def attrs_def validate_attr_def app1_def blank_def Schema0_def
      fcard_finsert_if fcard_fempty)

end
